theory Spec2Isabelle
  imports Complex_Main
begin

section \<open>Python values used by the server\<close>

text \<open>
  The server is \<^verbatim>\<open>src/server.py\<close>. Python exceptions are values: a function that can raise
  returns \<open>py_exception + 'a\<close>, with \<open>Inl\<close> for the raise. \<open>exc_str\<close> is \<^verbatim>\<open>str(e)\<close>, which the
  handlers paste into the detail of the HTTP error.
\<close>

datatype py_exception = TypeError string | AttributeError string | LibraryError string

fun exc_str :: "py_exception \<Rightarrow> string" where
  "exc_str (TypeError m) = m"
| "exc_str (AttributeError m) = m"
| "exc_str (LibraryError m) = m"

text \<open>
  A Python float is a finite value, an infinity or NaN. The server only compares floats with
  the literals \<^verbatim>\<open>0.0\<close> and \<^verbatim>\<open>1.0\<close> and never computes with them, so a finite float is
  represented by the real number it denotes. Every comparison with NaN is false.
\<close>

datatype pyfloat = Fin real | PosInf | NegInf | NaN

fun float_le :: "pyfloat \<Rightarrow> pyfloat \<Rightarrow> bool" where
  "float_le NaN _ = False"
| "float_le _ NaN = False"
| "float_le NegInf _ = True"
| "float_le _ PosInf = True"
| "float_le (Fin a) (Fin b) = (a \<le> b)"
| "float_le PosInf _ = False"
| "float_le _ NegInf = False"

datatype pyvalue = PNone | PBool bool | PInt int | PFloat pyfloat | PStr string

text \<open>The numeric reading of a value in a comparison: \<^verbatim>\<open>bool\<close> is a subtype of \<^verbatim>\<open>int\<close>.\<close>

fun as_number :: "pyvalue \<Rightarrow> pyfloat option" where
  "as_number (PBool b) = Some (Fin (if b then 1 else 0))"
| "as_number (PInt i) = Some (Fin (real_of_int i))"
| "as_number (PFloat f) = Some f"
| "as_number PNone = None"
| "as_number (PStr s) = None"

text \<open>
  \<^verbatim>\<open>v <= c\<close> and \<^verbatim>\<open>v >= c\<close> for a float literal \<open>c\<close>. \<^verbatim>\<open>None\<close> and strings raise TypeError,
  whose text names the operator and the two operand types, each in single quotes:
  \<^verbatim>\<open>'<=' not supported between instances of 'NoneType' and 'float'\<close>.
\<close>

fun type_name :: "pyvalue \<Rightarrow> string" where
  "type_name PNone = ''NoneType''"
| "type_name (PBool b) = ''bool''"
| "type_name (PInt i) = ''int''"
| "type_name (PFloat f) = ''float''"
| "type_name (PStr s) = ''str''"

definition quoted :: "string \<Rightarrow> string" where
  "quoted s = CHR 0x27 # s @ [CHR 0x27]"

definition not_supported :: "string \<Rightarrow> pyvalue \<Rightarrow> string" where
  "not_supported opr v =
     quoted opr @ '' not supported between instances of '' @ quoted (type_name v)
       @ '' and '' @ quoted ''float''"

text \<open>The message of the \<^verbatim>\<open>AttributeError\<close> of an attribute access on \<^verbatim>\<open>None\<close>.\<close>

definition no_attribute :: "string \<Rightarrow> string" where
  "no_attribute a = quoted ''NoneType'' @ '' object has no attribute '' @ quoted a"

definition py_le_float :: "pyvalue \<Rightarrow> real \<Rightarrow> py_exception + bool" where
  "py_le_float v c =
     (case as_number v of
        None \<Rightarrow> Inl (TypeError (not_supported ''<='' v))
      | Some x \<Rightarrow> Inr (float_le x (Fin c)))"

definition py_ge_float :: "pyvalue \<Rightarrow> real \<Rightarrow> py_exception + bool" where
  "py_ge_float v c =
     (case as_number v of
        None \<Rightarrow> Inl (TypeError (not_supported ''>='' v))
      | Some x \<Rightarrow> Inr (float_le (Fin c) x))"

section \<open>The model session and the library it is loaded with\<close>

datatype device_type = CUDA | CPU

datatype torch_device = TorchDevice (dev_type: device_type) (dev_index: "nat option")

datatype torch_dtype = float16 | float32

record BitsAndBytesConfig =
  load_in_4bit :: bool
  bnb_4bit_quant_type :: string
  bnb_4bit_compute_dtype :: torch_dtype

text \<open>
  \<^verbatim>\<open>model_kwargs\<close> is a dict with two fixed keys and two optional ones; an optional key that
  is absent is \<open>None\<close> here, which is also what \<^verbatim>\<open>model_kwargs.get\<close> returns for it.
\<close>

record model_kwargs =
  cache_dir :: "string option"
  trust_remote_code :: bool
  quantization_config :: "BitsAndBytesConfig option"
  torch_dtype :: "torch_dtype option"

record message =
  role :: string
  content :: string

type_synonym token = nat

text \<open>
  A Python dict with string keys is a map. \<open>generation_config\<close> is the dict of keyword
  arguments handed to \<^verbatim>\<open>model.generate\<close>.
\<close>

type_synonym pydict = "string \<rightharpoonup> pyvalue"

record BatchEncoding =
  input_ids :: "token list"
  attention_mask :: "nat list option"

text \<open>
  The calls into torch and transformers that the server makes, in the order it makes them.
  A call is recorded when it is made, whether it then returns or raises.
\<close>

datatype lib_call =
    GcCollect
  | CudaEmptyCache
  | TokenizerFromPretrained string "string option"
  | ModelFromPretrained string model_kwargs
  | ApplyChatTemplate "message list"
  | TokenizerCall string bool nat
  | ModelGenerate "token list" "nat list" pydict
  | Decode "token list"

text \<open>
  The libraries themselves are not part of the repository: they are a parameter. \<open>'m\<close> is
  the type of a loaded model, \<open>'t\<close> the type of a tokenizer. \<open>generate\<close> takes the state of
  the random number generator as its last argument; \<open>tokenizer_call t text truncation
  max_length\<close> is \<^verbatim>\<open>tokenizer(text, return_tensors="pt", truncation=..., padding=False,
  max_length=...)\<close>.
\<close>

record ('m, 't) hf =
  cuda_is_available :: bool
  tokenizer_from_pretrained :: "string \<Rightarrow> string option \<Rightarrow> py_exception + 't"
  pad_token :: "'t \<Rightarrow> string option"
  pad_token_id :: "'t \<Rightarrow> token option"
  eos_token :: "'t \<Rightarrow> string option"
  eos_token_id :: "'t \<Rightarrow> token option"
  set_pad_token :: "'t \<Rightarrow> string option \<Rightarrow> 't"
  set_pad_token_id :: "'t \<Rightarrow> token option \<Rightarrow> 't"
  model_from_pretrained :: "string \<Rightarrow> model_kwargs \<Rightarrow> py_exception + 'm"
  model_eval :: "'m \<Rightarrow> py_exception + 'm"
  model_param_device :: "'m \<Rightarrow> py_exception + torch_device"
  model_to :: "'m \<Rightarrow> torch_device \<Rightarrow> py_exception + 'm"
  apply_chat_template :: "'t \<Rightarrow> message list \<Rightarrow> py_exception + string"
  tokenizer_call :: "'t \<Rightarrow> string \<Rightarrow> bool \<Rightarrow> nat \<Rightarrow> py_exception + BatchEncoding"
  generate :: "'m \<Rightarrow> token list \<Rightarrow> nat list \<Rightarrow> pydict \<Rightarrow> nat \<Rightarrow> py_exception + token list"
  decode :: "'t \<Rightarrow> token list \<Rightarrow> py_exception + string"

text \<open>
  The four module globals \<^verbatim>\<open>model\<close>, \<^verbatim>\<open>tokenizer\<close>, \<^verbatim>\<open>device\<close> and \<^verbatim>\<open>model_id_loaded\<close>
  (all \<^verbatim>\<open>None\<close> at import), and the library calls made so far.
\<close>

record ('m, 't) session =
  model :: "'m option"
  tokenizer :: "'t option"
  device :: "torch_device option"
  model_id_loaded :: "string option"
  lib_calls :: "lib_call list"

definition initial_session :: "('m, 't) session" where
  "initial_session =
     \<lparr>model = None, tokenizer = None, device = None, model_id_loaded = None, lib_calls = []\<rparr>"

definition HARDCODED_MODEL_ID :: string where
  "HARDCODED_MODEL_ID = ''ruslanmv/Medical-Llama3-v2''"

definition log_call :: "lib_call \<Rightarrow> ('m, 't) session \<Rightarrow> ('m, 't) session" where
  "log_call c st = st\<lparr>lib_calls := lib_calls st @ [c]\<rparr>"

text \<open>The calls made between two states of the session.\<close>

definition new_calls :: "('m, 't) session \<Rightarrow> ('m, 't) session \<Rightarrow> lib_call list" where
  "new_calls st st' = drop (length (lib_calls st)) (lib_calls st')"

subsection \<open>\<^verbatim>\<open>load_model_and_tokenizer\<close>\<close>

text \<open>\<^verbatim>\<open>gc.collect(); if torch.cuda.is_available(): torch.cuda.empty_cache()\<close>\<close>

definition collect_garbage :: "('m, 't) hf \<Rightarrow> ('m, 't) session \<Rightarrow> ('m, 't) session" where
  "collect_garbage lib st =
     (let st1 = log_call GcCollect st
      in if cuda_is_available lib then log_call CudaEmptyCache st1 else st1)"

text \<open>Lines 107 to 111: a model that is still held is dropped before anything is loaded.\<close>

definition clear_previous_model :: "('m, 't) hf \<Rightarrow> ('m, 't) session \<Rightarrow> ('m, 't) session" where
  "clear_previous_model lib st =
     (if model st \<noteq> None
      then collect_garbage lib (st\<lparr>model := None, tokenizer := None, model_id_loaded := None\<rparr>)
      else st)"

text \<open>Lines 112 to 118: the device, and the precision that is used on it.\<close>

definition select_device :: "('m, 't) hf \<Rightarrow> string \<Rightarrow> torch_device \<times> string" where
  "select_device lib precision =
     (if cuda_is_available lib then (TorchDevice CUDA None, precision)
      else (TorchDevice CPU None, if precision = ''4-bit'' then ''16-bit'' else precision))"

text \<open>Lines 120 to 135.\<close>

definition make_model_kwargs :: "string \<Rightarrow> torch_device \<Rightarrow> string option \<Rightarrow> model_kwargs" where
  "make_model_kwargs precision dev cd =
     (let kw = \<lparr>cache_dir = cd, trust_remote_code = True,
                quantization_config = None, torch_dtype = None\<rparr>
      in if precision = ''4-bit'' \<and> dev_type dev = CUDA
         then kw\<lparr>quantization_config :=
                   Some \<lparr>load_in_4bit = True, bnb_4bit_quant_type = ''nf4'',
                         bnb_4bit_compute_dtype = float16\<rparr>\<rparr>
         else if precision = ''16-bit'' then kw\<lparr>torch_dtype := Some float16\<rparr>
         else kw)"

text \<open>
  Lines 136 to 146. When \<^verbatim>\<open>from_pretrained\<close> raises, the global \<^verbatim>\<open>tokenizer\<close> keeps the
  value it had and the exception is raised again.
\<close>

definition setup_pad_token :: "('m, 't) hf \<Rightarrow> 't \<Rightarrow> 't" where
  "setup_pad_token lib t =
     (let t1 = (if pad_token lib t = None \<or> pad_token_id lib t = eos_token_id lib t
                then set_pad_token lib t (eos_token lib t) else t)
      in if pad_token_id lib t1 = None then set_pad_token_id lib t1 (eos_token_id lib t1)
         else t1)"

definition load_tokenizer ::
  "('m, 't) hf \<Rightarrow> string \<Rightarrow> string option \<Rightarrow> ('m, 't) session
     \<Rightarrow> (py_exception + unit) \<times> ('m, 't) session" where
  "load_tokenizer lib model_id cd st =
     (let st1 = log_call (TokenizerFromPretrained model_id cd) st
      in case tokenizer_from_pretrained lib model_id cd of
           Inl e \<Rightarrow> (Inl e, st1)
         | Inr t \<Rightarrow> (Inr (), st1\<lparr>tokenizer := Some (setup_pad_token lib t)\<rparr>))"

text \<open>
  Lines 151 to 162: the placement check. Whatever is raised inside it is logged and dropped,
  so it never fails the load.
\<close>

definition place_model :: "('m, 't) hf \<Rightarrow> torch_device \<Rightarrow> model_kwargs \<Rightarrow> 'm \<Rightarrow> 'm" where
  "place_model lib dev kw m =
     (case model_param_device lib m of
        Inl e \<Rightarrow> m
      | Inr current_device \<Rightarrow>
          if current_device \<noteq> dev \<and> quantization_config kw = None
          then (case model_to lib m dev of Inl e \<Rightarrow> m | Inr m' \<Rightarrow> m')
          else m)"

text \<open>Lines 167 to 172: the handler of the model-loading step.\<close>

definition reset_session :: "('m, 't) hf \<Rightarrow> ('m, 't) session \<Rightarrow> ('m, 't) session" where
  "reset_session lib st =
     collect_garbage lib (st\<lparr>tokenizer := None, model := None, model_id_loaded := None\<rparr>)"

text \<open>Lines 147 to 172.\<close>

definition load_model ::
  "('m, 't) hf \<Rightarrow> string \<Rightarrow> model_kwargs \<Rightarrow> torch_device \<Rightarrow> ('m, 't) session
     \<Rightarrow> (py_exception + unit) \<times> ('m, 't) session" where
  "load_model lib model_id kw dev st =
     (let st1 = log_call (ModelFromPretrained model_id kw) st
      in case model_from_pretrained lib model_id kw of
           Inl e \<Rightarrow> (Inl e, reset_session lib st1)
         | Inr m \<Rightarrow>
             (case model_eval lib m of
                Inl e \<Rightarrow> (Inl e, reset_session lib (st1\<lparr>model := Some m\<rparr>))
              | Inr m1 \<Rightarrow>
                  (Inr (), st1\<lparr>model := Some (place_model lib dev kw m1),
                               model_id_loaded := Some model_id\<rparr>)))"

definition load_model_and_tokenizer ::
  "('m, 't) hf \<Rightarrow> string \<Rightarrow> string option \<Rightarrow> ('m, 't) session
     \<Rightarrow> (py_exception + unit) \<times> ('m, 't) session" where
  "load_model_and_tokenizer lib precision cd st =
     (let model_id = HARDCODED_MODEL_ID
      in if model st \<noteq> None \<and> model_id_loaded st = Some model_id then (Inr (), st)
         else
           (let st1 = clear_previous_model lib st;
                (dev, precision') = select_device lib precision;
                st2 = st1\<lparr>device := Some dev\<rparr>;
                kw = make_model_kwargs precision' dev cd
            in case load_tokenizer lib model_id cd st2 of
                 (Inl e, st3) \<Rightarrow> (Inl e, st3)
               | (Inr u, st3) \<Rightarrow> load_model lib model_id kw dev st3))"

subsection \<open>\<^verbatim>\<open>GET /health\<close>\<close>

record health_response =
  status :: string
  model_status :: string
  model_id :: "string option"

definition health_check :: "('m, 't) session \<Rightarrow> health_response \<times> ('m, 't) session" where
  "health_check st =
     (let loaded = (model st \<noteq> None \<and> tokenizer st \<noteq> None)
      in (\<lparr>status = ''healthy'',
           model_status = (if loaded then ''loaded'' else ''not loaded''),
           model_id = (if loaded then model_id_loaded st else Some ''None'')\<rparr>,
          st))"

section \<open>Requests\<close>

text \<open>
  A field of a request body is left out by the client (\<open>Unset\<close>) or given, as \<^verbatim>\<open>null\<close>
  (\<open>Given None\<close>) or as a value of the declared type. \<^verbatim>\<open>model_dump(exclude_unset=True)\<close> keeps
  exactly the given fields, so \<^verbatim>\<open>profile_data.get(k)\<close> is \<open>field_get\<close> of the field.
\<close>

datatype 'a field = Unset | Given "'a option"

fun field_get :: "'a field \<Rightarrow> 'a option" where
  "field_get Unset = None"
| "field_get (Given v) = v"

record UserProfile =
  age :: "int field"
  gender :: "string field"
  conditions :: "string list field"
  allergies :: "string list field"
  medications :: "string list field"
  name :: "string field"
  weight_kg :: "pyfloat field"
  height_cm :: "pyfloat field"
  blood_type :: "string field"

text \<open>The truth value of the dumped dict: it has at least one key.\<close>

definition profile_dict_nonempty :: "UserProfile \<Rightarrow> bool" where
  "profile_dict_nonempty p \<longleftrightarrow>
     age p \<noteq> Unset \<or> gender p \<noteq> Unset \<or> conditions p \<noteq> Unset \<or> allergies p \<noteq> Unset \<or>
     medications p \<noteq> Unset \<or> name p \<noteq> Unset \<or> weight_kg p \<noteq> Unset \<or> height_cm p \<noteq> Unset \<or>
     blood_type p \<noteq> Unset"

record ChatRequest =
  prompt :: string
  history :: "message list"
  user_profile :: "UserProfile option"
  max_new_tokens :: "int option"
  temperature :: "pyfloat option"
  top_p :: "pyfloat option"

record EmergencyAssessmentRequest =
  prompt :: string
  user_profile :: "UserProfile option"
  max_new_tokens :: "int option"
  temperature :: "pyfloat option"
  top_p :: "pyfloat option"

text \<open>
  A JSON body whose given fields have the declared types. The framework validates it against
  the request class before the endpoint function runs: \<^verbatim>\<open>prompt\<close> is required and is not
  optional, \<^verbatim>\<open>history\<close> is a list with default \<^verbatim>\<open>[]\<close>, the other fields are optional with the
  defaults of the class. Keys that the class does not declare are ignored.
\<close>

record request_body =
  body_prompt :: "string field"
  body_history :: "message list field"
  body_user_profile :: "UserProfile field"
  body_max_new_tokens :: "int field"
  body_temperature :: "pyfloat field"
  body_top_p :: "pyfloat field"

datatype validation_error = FieldRequired string | NoneNotAllowed string

fun with_default :: "'a field \<Rightarrow> 'a \<Rightarrow> 'a option" where
  "with_default Unset d = Some d"
| "with_default (Given v) d = v"

fun required :: "string \<Rightarrow> 'a field \<Rightarrow> validation_error + 'a" where
  "required k Unset = Inl (FieldRequired k)"
| "required k (Given None) = Inl (NoneNotAllowed k)"
| "required k (Given (Some v)) = Inr v"

fun list_with_default :: "string \<Rightarrow> 'a list field \<Rightarrow> validation_error + 'a list" where
  "list_with_default k Unset = Inr []"
| "list_with_default k (Given None) = Inl (NoneNotAllowed k)"
| "list_with_default k (Given (Some xs)) = Inr xs"

definition validate_ChatRequest :: "request_body \<Rightarrow> validation_error + ChatRequest" where
  "validate_ChatRequest b =
     (case required ''prompt'' (body_prompt b) of
        Inl v \<Rightarrow> Inl v
      | Inr p \<Rightarrow>
          (case list_with_default ''history'' (body_history b) of
             Inl v \<Rightarrow> Inl v
           | Inr h \<Rightarrow>
               Inr \<lparr>ChatRequest.prompt = p, history = h,
                    ChatRequest.user_profile = field_get (body_user_profile b),
                    ChatRequest.max_new_tokens = with_default (body_max_new_tokens b) 512,
                    ChatRequest.temperature = with_default (body_temperature b) (Fin (7/10)),
                    ChatRequest.top_p = with_default (body_top_p b) (Fin (9/10))\<rparr>))"

definition validate_EmergencyAssessmentRequest ::
  "request_body \<Rightarrow> validation_error + EmergencyAssessmentRequest" where
  "validate_EmergencyAssessmentRequest b =
     (case required ''prompt'' (body_prompt b) of
        Inl v \<Rightarrow> Inl v
      | Inr p \<Rightarrow>
          Inr \<lparr>EmergencyAssessmentRequest.prompt = p,
               EmergencyAssessmentRequest.user_profile = field_get (body_user_profile b),
               EmergencyAssessmentRequest.max_new_tokens = with_default (body_max_new_tokens b) 768,
               EmergencyAssessmentRequest.temperature =
                 with_default (body_temperature b) (Fin (3/10)),
               EmergencyAssessmentRequest.top_p = with_default (body_top_p b) (Fin (7/10))\<rparr>)"

section \<open>The prompt builder\<close>

definition CHAT_SYSTEM_PROMPT :: string where
  "CHAT_SYSTEM_PROMPT =
     ''You are a knowledgeable Medical AI Assistant.\<newline>'' @
     ''USER PROFILE CONTEXT (if provided): Consider the user's age, gender, conditions, and allergies for more personalized and relevant answers. Do not explicitly restate the profile unless asked. Only reply to Question asked.\<newline>'' @
     ''TASK: Provide helpful and informative answers to general medical queries in a clear and understanding way. If you don't know the answer or if it's a serious medical issue, advise seeking professional help from a doctor.\<newline>'' @
     ''4. In case there are specialised medical terms, explain them in simple english(eg: . Pneumoperitoneum)\<newline>'' @
     ''5. Do **NOT** generate quizzes, exam questions, or multiple-choice answers.\<newline>'' @
     ''6. Do **NOT** ask the user to choose between A/B/C/D.''"

definition EMERGENCY_SYSTEM_PROMPT :: string where
  "EMERGENCY_SYSTEM_PROMPT =
     ''You are an Emergency First Aid Advisor.\<newline>'' @
     ''USER PROFILE CONTEXT (if provided): Consider the user's age, known conditions, and allergies when providing steps, but prioritize immediate life-saving actions.\<newline>'' @
     ''TASK: Provide immediate, actionable, step-by-step first aid instructions for a layperson based STRICTLY on the situation and symptoms provided in the user prompt.\<newline>'' @
     ''PRIORITY 1: If the situation sounds potentially life-threatening (e.g., stroke symptoms, unconsciousness, severe bleeding, difficulty breathing), your FIRST step MUST be '1. Call emergency services (like 911, 112, etc.) immediately!'.\<newline>'' @
     ''Then, list ONLY simple, practical steps the person can take WHILE WAITING for professional help. Number each step (1., 2., 3., ...). Use simple language. Be concise and direct. ENSURE specific maneuvers are recommended when appropriate (eg: Heimlich for choking).\<newline>'' @
     ''DO NOT explain medical conditions. DO NOT add conversational filler. Just provide the comprehensive numbered steps.\<newline>'' @
     ''5. Do **NOT** generate quizzes, exam questions, or multiple-choice answers.\<newline>'' @
     ''6. Do **NOT** ask the user to choose between A/B/C/D.''"

text \<open>\<^verbatim>\<open>str(n)\<close> for an integer: decimal digits, with a minus sign below zero.\<close>

definition digit_char :: "nat \<Rightarrow> char" where
  "digit_char d = char_of (48 + d)"

fun str_nat :: "nat \<Rightarrow> string" where
  "str_nat n = (if n < 10 then [digit_char n] else str_nat (n div 10) @ [digit_char (n mod 10)])"

definition str_int :: "int \<Rightarrow> string" where
  "str_int i = (if i < 0 then ''-'' @ str_nat (nat (- i)) else str_nat (nat i))"

text \<open>\<^verbatim>\<open>sep.join(xs)\<close>\<close>

fun join :: "string \<Rightarrow> string list \<Rightarrow> string" where
  "join sep [] = []"
| "join sep [x] = x"
| "join sep (x # y # ys) = x @ sep @ join sep (y # ys)"

text \<open>
  \<^verbatim>\<open>s.strip()\<close>. A \<open>char\<close> is a code point below 256; the white space among them is the
  ASCII white space, the separators \<^verbatim>\<open>0x1c\<close> to \<^verbatim>\<open>0x1f\<close>, \<^verbatim>\<open>0x85\<close> and \<^verbatim>\<open>0xa0\<close>.
\<close>

definition isspace :: "char \<Rightarrow> bool" where
  "isspace c \<longleftrightarrow>
     (let n = (of_char c :: nat)
      in (9 \<le> n \<and> n \<le> 13) \<or> (28 \<le> n \<and> n \<le> 32) \<or> n = 133 \<or> n = 160)"

definition strip :: "string \<Rightarrow> string" where
  "strip s = rev (dropWhile isspace (rev (dropWhile isspace s)))"

text \<open>
  Lines 230 to 234. Each test is the truth value of \<^verbatim>\<open>profile_data.get(k)\<close>: \<^verbatim>\<open>None\<close>, the
  integer \<^verbatim>\<open>0\<close>, the empty string and the empty list are false.
\<close>

definition profile_parts :: "UserProfile \<Rightarrow> string list" where
  "profile_parts p =
     (case field_get (age p) of
        Some a \<Rightarrow> if a \<noteq> 0 then [''- Age: '' @ str_int a] else []
      | None \<Rightarrow> []) @
     (case field_get (gender p) of
        Some g \<Rightarrow> if g \<noteq> [] then [''- Gender: '' @ g] else []
      | None \<Rightarrow> []) @
     (case field_get (conditions p) of
        Some cs \<Rightarrow> if cs \<noteq> [] then [''- Known Conditions: '' @ join '', '' cs] else []
      | None \<Rightarrow> []) @
     (case field_get (allergies p) of
        Some als \<Rightarrow> if als \<noteq> [] then [''- Known Allergies: '' @ join '', '' als] else []
      | None \<Rightarrow> []) @
     (case field_get (medications p) of
        Some ms \<Rightarrow> if ms \<noteq> [] then [''- Current Medications: '' @ join '', '' ms] else []
      | None \<Rightarrow> [])"

text \<open>Lines 225 to 244: the effective system prompt.\<close>

definition effective_system_prompt :: "string \<Rightarrow> UserProfile option \<Rightarrow> string" where
  "effective_system_prompt system_prompt_base profile_data =
     (case profile_data of
        None \<Rightarrow> system_prompt_base
      | Some p \<Rightarrow>
          if profile_dict_nonempty p \<and> profile_parts p \<noteq> []
          then strip (''User Profile:\<newline>'' @ join ''\<newline>'' (profile_parts p))
                 @ ''\<newline>\<newline>'' @ system_prompt_base
          else system_prompt_base)"

text \<open>Line 252.\<close>

definition build_messages :: "string \<Rightarrow> message list \<Rightarrow> string \<Rightarrow> message list" where
  "build_messages system_prompt history_list user_content =
     [\<lparr>role = ''system'', content = system_prompt\<rparr>] @ history_list @
     [\<lparr>role = ''user'', content = user_content\<rparr>]"

section \<open>The generation invoker\<close>

text \<open>\<^verbatim>\<open>d.get(k, default)\<close>\<close>

definition dict_get :: "pydict \<Rightarrow> string \<Rightarrow> pyvalue \<Rightarrow> pyvalue" where
  "dict_get d k dflt = (case d k of None \<Rightarrow> dflt | Some v \<Rightarrow> v)"

fun token_value :: "token option \<Rightarrow> pyvalue" where
  "token_value None = PNone"
| "token_value (Some n) = PInt (int n)"

text \<open>
  Line 285: \<^verbatim>\<open>temperature <= 0.0 and top_p >= 1.0\<close>. The right operand is evaluated only when
  the left one is true.
\<close>

definition greedy_requested :: "pyvalue \<Rightarrow> pyvalue \<Rightarrow> py_exception + bool" where
  "greedy_requested temp tp =
     (case py_le_float temp 0 of
        Inl e \<Rightarrow> Inl e
      | Inr b \<Rightarrow> if b then py_ge_float tp 1 else Inr False)"

text \<open>Lines 272 to 290.\<close>

definition make_generation_config ::
  "('m, 't) hf \<Rightarrow> 't \<Rightarrow> pydict \<Rightarrow> py_exception + pydict" where
  "make_generation_config lib t gen_params =
     (let generation_config =
            [''max_new_tokens'' \<mapsto> dict_get gen_params ''max_new_tokens'' (PInt 512),
             ''eos_token_id'' \<mapsto> token_value (eos_token_id lib t),
             ''pad_token_id'' \<mapsto> token_value (pad_token_id lib t),
             ''use_cache'' \<mapsto> PBool True,
             ''temperature'' \<mapsto> dict_get gen_params ''temperature'' (PFloat (Fin (7/10))),
             ''top_p'' \<mapsto> dict_get gen_params ''top_p'' (PFloat (Fin (9/10))),
             ''do_sample'' \<mapsto> PBool True]
      in case greedy_requested (dict_get gen_params ''temperature'' (PFloat (Fin (7/10))))
                               (dict_get gen_params ''top_p'' (PFloat (Fin (9/10)))) of
           Inl e \<Rightarrow> Inl e
         | Inr greedy \<Rightarrow>
             if greedy
             then Inr ((generation_config(''do_sample'' \<mapsto> PBool False))
                         (''temperature'' := None, ''top_p'' := None))
             else Inr generation_config)"

text \<open>
  Lines 224 to 314, the body of the \<^verbatim>\<open>try\<close>. Tensors are the token lists they hold, and
  moving one to the device does not change it. An attribute of \<^verbatim>\<open>None\<close> raises
  AttributeError.
\<close>

definition generation_body ::
  "('m, 't) hf \<Rightarrow> string \<Rightarrow> string \<Rightarrow> message list \<Rightarrow> pydict \<Rightarrow> UserProfile option \<Rightarrow> nat
     \<Rightarrow> ('m, 't) session \<Rightarrow> (py_exception + string) \<times> ('m, 't) session" where
  "generation_body lib system_prompt_base user_content history_list gen_params profile_data rng st =
     (let system_prompt = effective_system_prompt system_prompt_base profile_data;
          messages = build_messages system_prompt history_list user_content
      in case tokenizer st of
           None \<Rightarrow> (Inl (AttributeError (no_attribute ''apply_chat_template'')), st)
         | Some t \<Rightarrow>
            (let st1 = log_call (ApplyChatTemplate messages) st
             in case apply_chat_template lib t messages of
                  Inl e \<Rightarrow> (Inl e, st1)
                | Inr prompt_formatted \<Rightarrow>
                   (let st2 = log_call (TokenizerCall prompt_formatted True 4096) st1
                    in case tokenizer_call lib t prompt_formatted True 4096 of
                         Inl e \<Rightarrow> (Inl e, st2)
                       | Inr inputs \<Rightarrow>
                          (let ids = input_ids inputs;
                               mask = (case attention_mask inputs of
                                         Some am \<Rightarrow> am
                                       | None \<Rightarrow> replicate (length ids) 1);
                               input_length = length ids
                           in case make_generation_config lib t gen_params of
                                Inl e \<Rightarrow> (Inl e, st2)
                              | Inr generation_config \<Rightarrow>
                                 (case model st of
                                    None \<Rightarrow>
                                      (Inl (AttributeError (no_attribute ''generate'')),
                                       st2)
                                  | Some m \<Rightarrow>
                                     (let st3 = log_call (ModelGenerate ids mask generation_config)
                                                  st2
                                      in case generate lib m ids mask generation_config rng of
                                           Inl e \<Rightarrow> (Inl e, st3)
                                         | Inr outputs \<Rightarrow>
                                            (let newly_generated_token_ids =
                                                   drop input_length outputs;
                                                 st4 = log_call (Decode newly_generated_token_ids)
                                                         st3
                                             in case decode lib t newly_generated_token_ids of
                                                  Inl e \<Rightarrow> (Inl e, st4)
                                                | Inr text \<Rightarrow> (Inr (strip text), st4))))))))"

datatype http_exception = HTTPException (status_code: nat) (detail: string)

text \<open>Lines 215 to 222: the lazy load, outside the \<^verbatim>\<open>try\<close>.\<close>

definition lazy_load ::
  "('m, 't) hf \<Rightarrow> string \<Rightarrow> string option \<Rightarrow> ('m, 't) session
     \<Rightarrow> (py_exception + unit) \<times> ('m, 't) session" where
  "lazy_load lib precision cd st =
     (if model st = None \<or> tokenizer st = None
      then load_model_and_tokenizer lib precision cd st
      else (Inr (), st))"

text \<open>
  \<^verbatim>\<open>_generate_response\<close>. \<open>precision\<close> and \<open>cd\<close> are the command line arguments kept in
  \<^verbatim>\<open>app.state.cli_args_parsed\<close>; \<open>rng\<close> is the state of the random number generator when the
  request arrives.
\<close>

definition generate_response ::
  "('m, 't) hf \<Rightarrow> string \<Rightarrow> string option \<Rightarrow> string \<Rightarrow> string \<Rightarrow> message list \<Rightarrow> pydict
     \<Rightarrow> UserProfile option \<Rightarrow> nat \<Rightarrow> ('m, 't) session
     \<Rightarrow> (http_exception + string) \<times> ('m, 't) session" where
  "generate_response lib precision cd system_prompt_base user_content history_list gen_params
       profile_data rng st =
     (case lazy_load lib precision cd st of
        (Inl e, st1) \<Rightarrow>
          (Inl (HTTPException 503 (''Model service temporarily unavailable: '' @ exc_str e)), st1)
      | (Inr u, st1) \<Rightarrow>
          (case generation_body lib system_prompt_base user_content history_list gen_params
                  profile_data rng st1 of
             (Inl e, st2) \<Rightarrow>
               (Inl (HTTPException 500 (''Error generating response: '' @ exc_str e)), st2)
           | (Inr answer, st2) \<Rightarrow> (Inr answer, st2)))"

section \<open>The endpoints\<close>

datatype response =
    ApiResponse string
  | HTTPError http_exception
  | RequestValidationError validation_error

fun int_value :: "int option \<Rightarrow> pyvalue" where
  "int_value None = PNone"
| "int_value (Some i) = PInt i"

fun float_value :: "pyfloat option \<Rightarrow> pyvalue" where
  "float_value None = PNone"
| "float_value (Some f) = PFloat f"

definition make_gen_params :: "int option \<Rightarrow> pyfloat option \<Rightarrow> pyfloat option \<Rightarrow> pydict" where
  "make_gen_params mnt temp tp =
     [''max_new_tokens'' \<mapsto> int_value mnt, ''temperature'' \<mapsto> float_value temp,
      ''top_p'' \<mapsto> float_value tp]"

fun to_response ::
  "(http_exception + string) \<times> ('m, 't) session \<Rightarrow> response \<times> ('m, 't) session" where
  "to_response (Inl h, st) = (HTTPError h, st)"
| "to_response (Inr answer, st) = (ApiResponse answer, st)"

definition chat ::
  "('m, 't) hf \<Rightarrow> string \<Rightarrow> string option \<Rightarrow> nat \<Rightarrow> request_body \<Rightarrow> ('m, 't) session
     \<Rightarrow> response \<times> ('m, 't) session" where
  "chat lib precision cd rng body st =
     (case validate_ChatRequest body of
        Inl v \<Rightarrow> (RequestValidationError v, st)
      | Inr request \<Rightarrow>
          to_response
            (generate_response lib precision cd CHAT_SYSTEM_PROMPT (ChatRequest.prompt request)
               (history request)
               (make_gen_params (ChatRequest.max_new_tokens request)
                  (ChatRequest.temperature request) (ChatRequest.top_p request))
               (ChatRequest.user_profile request) rng st))"

definition emergency_assessment ::
  "('m, 't) hf \<Rightarrow> string \<Rightarrow> string option \<Rightarrow> nat \<Rightarrow> request_body \<Rightarrow> ('m, 't) session
     \<Rightarrow> response \<times> ('m, 't) session" where
  "emergency_assessment lib precision cd rng body st =
     (case validate_EmergencyAssessmentRequest body of
        Inl v \<Rightarrow> (RequestValidationError v, st)
      | Inr request \<Rightarrow>
          to_response
            (generate_response lib precision cd EMERGENCY_SYSTEM_PROMPT
               (EmergencyAssessmentRequest.prompt request) []
               (make_gen_params (EmergencyAssessmentRequest.max_new_tokens request)
                  (EmergencyAssessmentRequest.temperature request)
                  (EmergencyAssessmentRequest.top_p request))
               (EmergencyAssessmentRequest.user_profile request) rng st))"

section \<open>Reachable sessions and notions used in the statements\<close>

text \<open>
  The model is set only together with the tokenizer and the identifier it was loaded under.
\<close>

definition session_consistent :: "('m, 't) session \<Rightarrow> bool" where
  "session_consistent st \<longleftrightarrow>
     (model st \<noteq> None \<longrightarrow> tokenizer st \<noteq> None \<and> model_id_loaded st \<noteq> None)"

text \<open>
  The sessions the server can be in: the globals at import, and what the preload at startup
  and each request make of them. \<open>precision\<close> and \<open>cd\<close> are the command line arguments,
  fixed for the life of the process.
\<close>

inductive reachable ::
  "('m, 't) hf \<Rightarrow> string \<Rightarrow> string option \<Rightarrow> ('m, 't) session \<Rightarrow> bool"
  for lib :: "('m, 't) hf" and precision :: string and cd :: "string option" where
  at_import: "reachable lib precision cd initial_session"
| preload: "reachable lib precision cd st \<Longrightarrow>
     reachable lib precision cd (snd (load_model_and_tokenizer lib precision cd st))"
| health: "reachable lib precision cd st \<Longrightarrow> reachable lib precision cd (snd (health_check st))"
| chat_request: "reachable lib precision cd st \<Longrightarrow>
     reachable lib precision cd (snd (chat lib precision cd rng body st))"
| emergency_request: "reachable lib precision cd st \<Longrightarrow>
     reachable lib precision cd (snd (emergency_assessment lib precision cd rng body st))"

text \<open>The keyword arguments the loader builds for a requested precision (lines 112 to 135).\<close>

definition kwargs_used :: "('m, 't) hf \<Rightarrow> string \<Rightarrow> string option \<Rightarrow> model_kwargs" where
  "kwargs_used lib precision cd =
     make_model_kwargs (snd (select_device lib precision)) (fst (select_device lib precision)) cd"

fun is_loader_call :: "lib_call \<Rightarrow> bool" where
  "is_loader_call GcCollect = True"
| "is_loader_call CudaEmptyCache = True"
| "is_loader_call (TokenizerFromPretrained a b) = True"
| "is_loader_call (ModelFromPretrained a b) = True"
| "is_loader_call c = False"

section \<open>A small library to run the server on\<close>

text \<open>
  An instance of the library parameter, on which the functions can be evaluated. Its model
  is the keyword arguments it was loaded with, so the precision of a loaded model can be
  read off the session; its tokenizer is the model identifier. A prompt is tokenized into
  its character codes. Greedy decoding appends the token 33, sampling a token that depends
  on the state of the random number generator.
\<close>

definition demo_lib :: "bool \<Rightarrow> (model_kwargs, string) hf" where
  "demo_lib cuda =
     \<lparr>cuda_is_available = cuda,
      tokenizer_from_pretrained = (\<lambda>mid cd. Inr mid),
      pad_token = (\<lambda>t. None),
      pad_token_id = (\<lambda>t. None),
      eos_token = (\<lambda>t. Some ''<eos>''),
      eos_token_id = (\<lambda>t. Some 2),
      set_pad_token = (\<lambda>t v. t),
      set_pad_token_id = (\<lambda>t v. t),
      model_from_pretrained = (\<lambda>mid kw. Inr kw),
      model_eval = (\<lambda>m. Inr m),
      model_param_device = (\<lambda>m. Inr (TorchDevice (if cuda then CUDA else CPU) None)),
      model_to = (\<lambda>m d. Inr m),
      apply_chat_template = (\<lambda>t msgs. Inr (concat (map content msgs))),
      tokenizer_call = (\<lambda>t s truncation max_length.
         Inr \<lparr>input_ids = (if truncation then take max_length (map of_char s) else map of_char s),
              attention_mask = None\<rparr>),
      generate = (\<lambda>m ids mask cfg rng.
         Inr (ids @ [if cfg ''do_sample'' = Some (PBool False) then 33 else 65 + rng mod 26])),
      decode = (\<lambda>t ids. Inr (map char_of ids))\<rparr>"

text \<open>The same library when the weights cannot be loaded.\<close>

definition failing_model_lib :: "(model_kwargs, string) hf" where
  "failing_model_lib =
     (demo_lib False)\<lparr>model_from_pretrained := (\<lambda>mid kw. Inl (LibraryError ''no weights''))\<rparr>"

text \<open>The session after a load at 16-bit precision on a machine without CUDA.\<close>

definition demo_loaded_16 :: "(model_kwargs, string) session" where
  "demo_loaded_16 =
     snd (load_model_and_tokenizer (demo_lib False) ''16-bit'' None initial_session)"

text \<open>The session that the failed load at 16-bit precision leaves behind.\<close>

definition failed_session :: "(model_kwargs, string) session" where
  "failed_session =
     \<lparr>model = None, tokenizer = None, device = Some (TorchDevice CPU None),
       model_id_loaded = None,
       lib_calls = [TokenizerFromPretrained ''ruslanmv/Medical-Llama3-v2'' None,
                    ModelFromPretrained ''ruslanmv/Medical-Llama3-v2''
                     \<lparr>cache_dir = None, trust_remote_code = True, quantization_config = None,
                      torch_dtype = Some float16\<rparr>, GcCollect]\<rparr>"

text \<open>A session that still holds a model loaded under another identifier.\<close>

definition stale_session :: "(model_kwargs, string) session" where
  "stale_session = demo_loaded_16\<lparr>model_id_loaded := Some ''another/model''\<rparr>"

text \<open>A chat request with two turns of history and no generation parameters.\<close>

definition demo_body :: request_body where
  "demo_body =
     \<lparr>body_prompt = Given (Some ''and now?''),
      body_history = Given (Some [\<lparr>role = ''user'', content = ''my head aches''\<rparr>,
                                  \<lparr>role = ''assistant'', content = ''since when?''\<rparr>]),
      body_user_profile = Unset,
      body_max_new_tokens = Unset,
      body_temperature = Unset,
      body_top_p = Unset\<rparr>"

text \<open>What validation makes of it.\<close>

definition demo_request :: ChatRequest where
  "demo_request =
     \<lparr>ChatRequest.prompt = ''and now?'',
      history = [\<lparr>role = ''user'', content = ''my head aches''\<rparr>,
                 \<lparr>role = ''assistant'', content = ''since when?''\<rparr>],
      ChatRequest.user_profile = None,
      ChatRequest.max_new_tokens = Some 512,
      ChatRequest.temperature = Some (Fin (7/10)),
      ChatRequest.top_p = Some (Fin (9/10))\<rparr>"

text \<open>What validation for \<^verbatim>\<open>/emergency_assessment\<close> makes of the same body.\<close>

definition demo_emergency_request :: EmergencyAssessmentRequest where
  "demo_emergency_request =
     \<lparr>EmergencyAssessmentRequest.prompt = ''and now?'',
      EmergencyAssessmentRequest.user_profile = None,
      EmergencyAssessmentRequest.max_new_tokens = Some 768,
      EmergencyAssessmentRequest.temperature = Some (Fin (3/10)),
      EmergencyAssessmentRequest.top_p = Some (Fin (7/10))\<rparr>"

text \<open>The same library when the tokenizer cannot be loaded.\<close>

definition failing_tokenizer_lib :: "(model_kwargs, string) hf" where
  "failing_tokenizer_lib =
     (demo_lib False)\<lparr>tokenizer_from_pretrained := (\<lambda>mid cd. Inl (LibraryError ''no tokenizer''))\<rparr>"


text \<open>
  What the server relies on from the tokenizer: called with \<^verbatim>\<open>truncation=True\<close>, it returns
  at most \<^verbatim>\<open>max_length\<close> tokens.
\<close>

definition truncation_contract :: "('m, 't) hf \<Rightarrow> bool" where
  "truncation_contract lib \<longleftrightarrow>
     (\<forall>t text n enc. tokenizer_call lib t text True n = Inr enc \<longrightarrow>
        length (input_ids enc) \<le> n)"

text \<open>
  What the server relies on from \<^verbatim>\<open>model.generate\<close>: with \<^verbatim>\<open>do_sample=False\<close> the result
  does not depend on the state of the random number generator.
\<close>

definition greedy_is_deterministic :: "('m, 't) hf \<Rightarrow> bool" where
  "greedy_is_deterministic lib \<longleftrightarrow>
     (\<forall>m ids am cfg r r'. cfg ''do_sample'' = Some (PBool False) \<longrightarrow>
        generate lib m ids am cfg r = generate lib m ids am cfg r')"

text \<open>A user message of 5000 characters, which alone is more than 4096 tokens.\<close>

definition long_prompt :: string where
  "long_prompt = replicate 5000 (CHR ''a'')"

text \<open>
  The dict that \<^verbatim>\<open>model_dump(exclude_unset=True)\<close> makes of the profile
  \<^verbatim>\<open>{"age": a}\<close>: only the key \<^verbatim>\<open>age\<close> is set.
\<close>

definition only_age :: "int \<Rightarrow> UserProfile" where
  "only_age a =
     \<lparr>age = Given (Some a), gender = Unset, conditions = Unset, allergies = Unset,
      medications = Unset, name = Unset, weight_kg = Unset, height_cm = Unset,
      blood_type = Unset\<rparr>"

text \<open>
  The body \<^verbatim>\<open>{"prompt": "and now?", "user_profile": {"age": 0}}\<close> of a request to
  \<^verbatim>\<open>/chat\<close>.
\<close>

definition age_zero_body :: request_body where
  "age_zero_body =
     \<lparr>body_prompt = Given (Some ''and now?''),
      body_history = Unset,
      body_user_profile = Given (Some (only_age 0)),
      body_max_new_tokens = Unset,
      body_temperature = Unset,
      body_top_p = Unset\<rparr>"

section \<open>Properties of the loader and of the generation invoker\<close>

lemma log_call_fields [simp]:
  "model (log_call c st) = model st"
  "tokenizer (log_call c st) = tokenizer st"
  "device (log_call c st) = device st"
  "model_id_loaded (log_call c st) = model_id_loaded st"
  "lib_calls (log_call c st) = lib_calls st @ [c]"
  by (simp_all add: log_call_def)

lemma collect_garbage_fields [simp]:
  "model (collect_garbage lib st) = model st"
  "tokenizer (collect_garbage lib st) = tokenizer st"
  "device (collect_garbage lib st) = device st"
  "model_id_loaded (collect_garbage lib st) = model_id_loaded st"
  "lib_calls (collect_garbage lib st) =
     lib_calls st @ GcCollect # (if cuda_is_available lib then [CudaEmptyCache] else [])"
  by (simp_all add: collect_garbage_def Let_def)

lemma new_calls_append [simp]: "lib_calls st' = lib_calls st @ cs \<Longrightarrow> new_calls st st' = cs"
  by (simp add: new_calls_def)

lemma new_calls_same [simp]: "new_calls st st = []"
  by (simp add: new_calls_def)

lemma load_tokenizer_calls:
  "lib_calls (snd (load_tokenizer lib mid cd st)) = lib_calls st @ [TokenizerFromPretrained mid cd]"
  by (simp add: load_tokenizer_def Let_def split: sum.splits)

lemma load_model_calls:
  "\<exists>cs. lib_calls (snd (load_model lib mid kw dev st)) = lib_calls st @ ModelFromPretrained mid kw # cs
        \<and> set cs \<subseteq> {GcCollect, CudaEmptyCache}"
  by (auto simp add: load_model_def reset_session_def Let_def split: sum.splits)

lemma clear_previous_model_calls:
  "lib_calls (clear_previous_model lib st) =
     lib_calls st @ (if model st \<noteq> None
                     then GcCollect # (if cuda_is_available lib then [CudaEmptyCache] else [])
                     else [])"
  by (simp add: clear_previous_model_def)

lemma load_calls:
  "\<exists>cs. lib_calls (snd (load_model_and_tokenizer lib precision cd st)) = lib_calls st @ cs
       \<and> (\<forall>mid kw. ModelFromPretrained mid kw \<in> set cs \<longrightarrow> kw = kwargs_used lib precision cd)
       \<and> (\<forall>c \<in> set cs. case c of GcCollect \<Rightarrow> True | CudaEmptyCache \<Rightarrow> True
             | TokenizerFromPretrained a b \<Rightarrow> True | ModelFromPretrained a b \<Rightarrow> True | _ \<Rightarrow> False)"
proof (cases "model st \<noteq> None \<and> model_id_loaded st = Some HARDCODED_MODEL_ID")
  case True
  then show ?thesis by (simp add: load_model_and_tokenizer_def)
next
  case False
  obtain dev p where sd: "select_device lib precision = (dev, p)" by fastforce
  define st2 where "st2 = (clear_previous_model lib st)\<lparr>device := Some dev\<rparr>"
  obtain r st3 where lt: "load_tokenizer lib HARDCODED_MODEL_ID cd st2 = (r, st3)" by fastforce
  have c2: "lib_calls st2 = lib_calls st @ (if model st \<noteq> None
                     then GcCollect # (if cuda_is_available lib then [CudaEmptyCache] else [])
                     else [])"
    by (simp add: st2_def clear_previous_model_calls)
  have c3: "lib_calls st3 = lib_calls st2 @ [TokenizerFromPretrained HARDCODED_MODEL_ID cd]"
    using load_tokenizer_calls[of lib HARDCODED_MODEL_ID cd st2] lt by simp
  show ?thesis
  proof (cases r)
    case (Inl e)
    with False sd lt c2 c3 show ?thesis
      by (auto simp add: load_model_and_tokenizer_def Let_def st2_def[symmetric])
  next
    case (Inr u)
    obtain cs where cs: "lib_calls (snd (load_model lib HARDCODED_MODEL_ID (make_model_kwargs p dev cd) dev st3))
        = lib_calls st3 @ ModelFromPretrained HARDCODED_MODEL_ID (make_model_kwargs p dev cd) # cs"
        "set cs \<subseteq> {GcCollect, CudaEmptyCache}"
      using load_model_calls by blast
    with Inr False sd lt c2 c3 show ?thesis
      by (auto simp add: load_model_and_tokenizer_def Let_def st2_def[symmetric] kwargs_used_def)
  qed
qed

lemma health_check_unchanged: "snd (health_check st) = st"
  by (simp add: health_check_def Let_def)

lemma load_model_failure:
  "load_model lib mid kw dev st = (Inl e, st') \<Longrightarrow>
     model st' = None \<and> tokenizer st' = None \<and> model_id_loaded st' = None"
  by (auto simp add: load_model_def reset_session_def Let_def split: sum.splits)

lemma load_model_success:
  "load_model lib mid kw dev st = (Inr u, st') \<Longrightarrow>
     model st' \<noteq> None \<and> tokenizer st' = tokenizer st \<and> model_id_loaded st' = Some mid"
  by (auto simp add: load_model_def reset_session_def Let_def split: sum.splits)

lemma load_tokenizer_result:
  "load_tokenizer lib mid cd st = (r, st') \<Longrightarrow>
     model st' = model st \<and> model_id_loaded st' = model_id_loaded st \<and>
     (case r of Inl e \<Rightarrow> tokenizer st' = tokenizer st
              \<and> tokenizer_from_pretrained lib mid cd = Inl e
      | Inr u \<Rightarrow> tokenizer st' \<noteq> None)"
  by (auto simp add: load_tokenizer_def Let_def split: sum.splits)

lemma clear_previous_model_fields:
  "model (clear_previous_model lib st) = None"
  "model st \<noteq> None \<Longrightarrow> model_id_loaded (clear_previous_model lib st) = None"
  by (simp_all add: clear_previous_model_def)

lemma load_outcome:
  assumes "load_model_and_tokenizer lib precision cd st = (r, st')"
  shows "case r of
           Inl e \<Rightarrow> model st' = None \<and>
                    (tokenizer_from_pretrained lib HARDCODED_MODEL_ID cd \<noteq> Inl e \<longrightarrow>
                       tokenizer st' = None \<and> model_id_loaded st' = None)
         | Inr u \<Rightarrow> model st' \<noteq> None \<and>
                    (st' = st \<or> tokenizer st' \<noteq> None \<and> model_id_loaded st' \<noteq> None)"
proof (cases "model st \<noteq> None \<and> model_id_loaded st = Some HARDCODED_MODEL_ID")
  case True
  with assms show ?thesis by (auto simp add: load_model_and_tokenizer_def)
next
  case False
  obtain dev p where sd: "select_device lib precision = (dev, p)" by fastforce
  define st2 where "st2 = (clear_previous_model lib st)\<lparr>device := Some dev\<rparr>"
  obtain r3 st3 where lt: "load_tokenizer lib HARDCODED_MODEL_ID cd st2 = (r3, st3)" by fastforce
  have m2: "model st2 = None" by (simp add: st2_def clear_previous_model_fields)
  note t3 = load_tokenizer_result[OF lt]
  show ?thesis
  proof (cases r3)
    case (Inl e)
    with False sd lt assms have "r = Inl e" "st' = st3"
      by (auto simp add: load_model_and_tokenizer_def Let_def st2_def[symmetric])
    with t3 m2 Inl show ?thesis by auto
  next
    case (Inr u)
    with False sd lt assms have lm: "load_model lib HARDCODED_MODEL_ID (make_model_kwargs p dev cd) dev st3 = (r, st')"
      by (auto simp add: load_model_and_tokenizer_def Let_def st2_def[symmetric])
    show ?thesis
    proof (cases r)
      case (Inl e)
      with lm load_model_failure show ?thesis by fastforce
    next
      case (Inr u')
      with lm load_model_success[of lib _ _ dev st3 u' st'] t3 \<open>r3 = Inr u\<close> show ?thesis by auto
    qed
  qed
qed

lemma generation_body_fields:
  "model (snd (generation_body lib b u h gp pd rng st)) = model st"
  "tokenizer (snd (generation_body lib b u h gp pd rng st)) = tokenizer st"
  "device (snd (generation_body lib b u h gp pd rng st)) = device st"
  "model_id_loaded (snd (generation_body lib b u h gp pd rng st)) = model_id_loaded st"
  by (simp_all add: generation_body_def Let_def split: option.splits sum.splits)

lemma generation_body_calls:
  "\<exists>cs. lib_calls (snd (generation_body lib b u h gp pd rng st)) = lib_calls st @ cs
     \<and> (\<forall>c \<in> set cs. \<not> is_loader_call c)
     \<and> (\<forall>msgs. ApplyChatTemplate msgs \<in> set cs \<longrightarrow>
            msgs = build_messages (effective_system_prompt b pd) h u)
     \<and> (\<forall>ids mask cfg. ModelGenerate ids mask cfg \<in> set cs \<longrightarrow>
           (\<exists>t p enc. tokenizer st = Some t
              \<and> tokenizer_call lib t p True 4096 = Inr enc \<and> ids = input_ids enc
              \<and> make_generation_config lib t gp = Inr cfg))"
  by (auto simp add: generation_body_def Let_def split: option.splits sum.splits)

lemma load_calls_loader:
  "\<exists>cs. lib_calls (snd (load_model_and_tokenizer lib precision cd st)) = lib_calls st @ cs
       \<and> (\<forall>c \<in> set cs. is_loader_call c)"
proof -
  obtain cs where cs: "lib_calls (snd (load_model_and_tokenizer lib precision cd st)) = lib_calls st @ cs"
    and k: "\<forall>c \<in> set cs. case c of GcCollect \<Rightarrow> True | CudaEmptyCache \<Rightarrow> True
             | TokenizerFromPretrained a b \<Rightarrow> True | ModelFromPretrained a b \<Rightarrow> True | _ \<Rightarrow> False"
    using load_calls[of lib precision cd st] by blast
  have "\<forall>c \<in> set cs. is_loader_call c"
  proof
    fix c assume "c \<in> set cs"
    with k show "is_loader_call c" by (cases c) auto
  qed
  with cs show ?thesis by blast
qed

lemma lazy_load_calls:
  "\<exists>cs. lib_calls (snd (lazy_load lib precision cd st)) = lib_calls st @ cs
       \<and> (\<forall>c \<in> set cs. is_loader_call c)"
  using load_calls_loader[of lib precision cd st] by (auto simp add: lazy_load_def)

lemma generate_response_calls:
  "\<exists>cs. lib_calls (snd (generate_response lib precision cd b u h gp pd rng st)) = lib_calls st @ cs
     \<and> (\<forall>msgs. ApplyChatTemplate msgs \<in> set cs \<longrightarrow>
            msgs = build_messages (effective_system_prompt b pd) h u)
     \<and> (\<forall>ids mask cfg. ModelGenerate ids mask cfg \<in> set cs \<longrightarrow>
           (\<exists>t p enc. tokenizer_call lib t p True 4096 = Inr enc \<and> ids = input_ids enc
              \<and> make_generation_config lib t gp = Inr cfg))"
proof -
  obtain r st1 where ll: "lazy_load lib precision cd st = (r, st1)" by fastforce
  obtain cs1 where cs1: "lib_calls st1 = lib_calls st @ cs1" "\<forall>c \<in> set cs1. is_loader_call c"
    using lazy_load_calls[of lib precision cd st] ll by auto
  show ?thesis
  proof (cases r)
    case (Inl e)
    with ll cs1 show ?thesis
      by (auto simp add: generate_response_def)
  next
    case (Inr x)
    obtain r2 st2 where gb: "generation_body lib b u h gp pd rng st1 = (r2, st2)" by fastforce
    obtain cs2 where cs2: "lib_calls st2 = lib_calls st1 @ cs2"
      "\<forall>msgs. ApplyChatTemplate msgs \<in> set cs2 \<longrightarrow>
            msgs = build_messages (effective_system_prompt b pd) h u"
      "\<forall>ids mask cfg. ModelGenerate ids mask cfg \<in> set cs2 \<longrightarrow>
           (\<exists>t p enc. tokenizer st1 = Some t
              \<and> tokenizer_call lib t p True 4096 = Inr enc \<and> ids = input_ids enc
              \<and> make_generation_config lib t gp = Inr cfg)"
      using generation_body_calls[of lib b u h gp pd rng st1] gb by auto
    have st': "snd (generate_response lib precision cd b u h gp pd rng st) = st2"
      using ll Inr gb by (simp add: generate_response_def split: sum.splits)
    have "lib_calls st2 = lib_calls st @ (cs1 @ cs2)" using cs1 cs2 by simp
    moreover have "\<forall>msgs. ApplyChatTemplate msgs \<in> set (cs1 @ cs2) \<longrightarrow>
            msgs = build_messages (effective_system_prompt b pd) h u"
      using cs1(2) cs2(2) by fastforce
    moreover have "\<forall>ids mask cfg. ModelGenerate ids mask cfg \<in> set (cs1 @ cs2) \<longrightarrow>
           (\<exists>t p enc. tokenizer_call lib t p True 4096 = Inr enc \<and> ids = input_ids enc
              \<and> make_generation_config lib t gp = Inr cfg)"
      using cs1(2) cs2(3) by fastforce
    ultimately show ?thesis unfolding st' by blast
  qed
qed

lemmas demo_eval = load_model_and_tokenizer_def clear_previous_model_def select_device_def
  make_model_kwargs_def load_tokenizer_def setup_pad_token_def load_model_def place_model_def
  reset_session_def collect_garbage_def log_call_def new_calls_def initial_session_def
  demo_lib_def HARDCODED_MODEL_ID_def Let_def

lemma demo_loaded_16_eq:
  "demo_loaded_16 =
     \<lparr>model = Some \<lparr>cache_dir = None, trust_remote_code = True, quantization_config = None,
                     torch_dtype = Some float16\<rparr>,
      tokenizer = Some ''ruslanmv/Medical-Llama3-v2'',
      device = Some (TorchDevice CPU None),
      model_id_loaded = Some ''ruslanmv/Medical-Llama3-v2'',
      lib_calls = [TokenizerFromPretrained ''ruslanmv/Medical-Llama3-v2'' None,
                   ModelFromPretrained ''ruslanmv/Medical-Llama3-v2''
                     \<lparr>cache_dir = None, trust_remote_code = True, quantization_config = None,
                      torch_dtype = Some float16\<rparr>]\<rparr>"
  by (simp add: demo_loaded_16_def demo_eval)

lemma load_consistent:
  assumes "session_consistent st"
  shows "session_consistent (snd (load_model_and_tokenizer lib precision cd st))"
proof -
  obtain r st' where l: "load_model_and_tokenizer lib precision cd st = (r, st')" by fastforce
  from load_outcome[OF l] assms show ?thesis
    unfolding l by (cases r) (auto simp add: session_consistent_def)
qed

lemma generate_response_session:
  "session_consistent st \<Longrightarrow>
     session_consistent (snd (generate_response lib precision cd b u h gp pd rng st))"
proof -
  assume c: "session_consistent st"
  obtain r st1 where ll: "lazy_load lib precision cd st = (r, st1)" by fastforce
  have c1: "session_consistent st1"
    using load_consistent[OF c, of lib precision cd] ll c by (auto simp add: lazy_load_def split: if_splits)
  show ?thesis
  proof (cases r)
    case (Inl e)
    with ll c1 show ?thesis by (simp add: generate_response_def)
  next
    case (Inr x)
    obtain r2 st2 where gb: "generation_body lib b u h gp pd rng st1 = (r2, st2)" by fastforce
    have "session_consistent st2"
      using generation_body_fields[of lib b u h gp pd rng st1] gb c1
      by (simp add: session_consistent_def)
    with ll Inr gb show ?thesis by (simp add: generate_response_def split: sum.splits)
  qed
qed

lemma to_response_snd: "snd (to_response x) = snd x"
  by (cases x rule: to_response.cases) simp_all

lemma reachable_consistent:
  "reachable lib precision cd st \<Longrightarrow> session_consistent st"
proof (induction rule: reachable.induct)
  case at_import
  then show ?case by (simp add: session_consistent_def initial_session_def)
next
  case (preload st)
  then show ?case by (simp add: load_consistent)
next
  case (health st)
  then show ?case by (simp add: health_check_unchanged)
next
  case (chat_request st rng body)
  then show ?case
    by (auto simp add: chat_def to_response_snd generate_response_session split: sum.splits)
next
  case (emergency_request st rng body)
  then show ?case
    by (auto simp add: emergency_assessment_def to_response_snd generate_response_session
        split: sum.splits)
qed

lemma failing_load:
  "load_model_and_tokenizer failing_model_lib ''16-bit'' None initial_session =
     (Inl (LibraryError ''no weights''),
      \<lparr>model = None, tokenizer = None, device = Some (TorchDevice CPU None),
       model_id_loaded = None,
       lib_calls = [TokenizerFromPretrained ''ruslanmv/Medical-Llama3-v2'' None,
                    ModelFromPretrained ''ruslanmv/Medical-Llama3-v2''
                     \<lparr>cache_dir = None, trust_remote_code = True, quantization_config = None,
                      torch_dtype = Some float16\<rparr>, GcCollect]\<rparr>)"
  by (simp add: failing_model_lib_def demo_eval)

lemma lazy_load_loaded:
  "model st \<noteq> None \<Longrightarrow> tokenizer st \<noteq> None \<Longrightarrow> lazy_load lib precision cd st = (Inr (), st)"
  by (auto simp add: lazy_load_def)

lemma generation_body_first_call:
  "tokenizer st = Some t \<Longrightarrow>
     \<exists>cs. lib_calls (snd (generation_body lib b u h gp pd rng st)) =
       lib_calls st @ ApplyChatTemplate (build_messages (effective_system_prompt b pd) h u) # cs"
  by (auto simp add: generation_body_def Let_def split: option.splits sum.splits)

lemma generate_response_loaded:
  "model st \<noteq> None \<Longrightarrow> tokenizer st \<noteq> None \<Longrightarrow>
     snd (generate_response lib precision cd b u h gp pd rng st) =
       snd (generation_body lib b u h gp pd rng st) \<and>
     fst (generate_response lib precision cd b u h gp pd rng st) =
       (case fst (generation_body lib b u h gp pd rng st) of
          Inl e \<Rightarrow> Inl (HTTPException 500 (''Error generating response: '' @ exc_str e))
        | Inr answer \<Rightarrow> Inr answer)"
  by (auto simp add: generate_response_def lazy_load_loaded split: prod.splits sum.splits)

lemma build_messages_length:
  "length (build_messages sp h u) = length h + 2"
  by (simp add: build_messages_def)

lemma demo_body_valid: "validate_ChatRequest demo_body = Inr demo_request"
  by (simp add: validate_ChatRequest_def demo_body_def demo_request_def)

lemma generation_body_loaded:
  assumes "tokenizer st = Some t" "model st = Some m"
    and "apply_chat_template lib t (build_messages (effective_system_prompt b pd) h u) = Inr p"
    and "tokenizer_call lib t p True 4096 = Inr enc"
    and "make_generation_config lib t gp = Inr cfg"
  shows "\<exists>mask cs.
     mask = (case attention_mask enc of Some am \<Rightarrow> am
             | None \<Rightarrow> replicate (length (input_ids enc)) 1) \<and>
     lib_calls (snd (generation_body lib b u h gp pd rng st)) =
       lib_calls st @ [ApplyChatTemplate (build_messages (effective_system_prompt b pd) h u),
                       TokenizerCall p True 4096,
                       ModelGenerate (input_ids enc) mask cfg] @ cs \<and>
     fst (generation_body lib b u h gp pd rng st) =
       (case generate lib m (input_ids enc) mask cfg rng of
          Inl e \<Rightarrow> Inl e
        | Inr outputs \<Rightarrow>
            (case decode lib t (drop (length (input_ids enc)) outputs) of
               Inl e \<Rightarrow> Inl e
             | Inr text \<Rightarrow> Inr (strip text)))"
  using assms
  by (auto simp add: generation_body_def Let_def split: option.splits sum.splits)

lemma generate_response_loaded_calls:
  assumes "tokenizer st = Some t" "model st = Some m"
    and "apply_chat_template lib t (build_messages (effective_system_prompt b pd) h u) = Inr p"
    and "tokenizer_call lib t p True 4096 = Inr enc"
    and "make_generation_config lib t gp = Inr cfg"
  shows "\<exists>mask. ModelGenerate (input_ids enc) mask cfg
           \<in> set (new_calls st (snd (generate_response lib precision cd b u h gp pd rng st)))"
proof -
  from generation_body_loaded[OF assms, of rng]
  obtain mask cs where "lib_calls (snd (generation_body lib b u h gp pd rng st)) =
       lib_calls st @ [ApplyChatTemplate (build_messages (effective_system_prompt b pd) h u),
                       TokenizerCall p True 4096,
                       ModelGenerate (input_ids enc) mask cfg] @ cs"
    by blast
  moreover have "snd (generate_response lib precision cd b u h gp pd rng st) =
       snd (generation_body lib b u h gp pd rng st)"
    using generate_response_loaded[of st lib precision cd b u h gp pd rng] assms(1,2) by simp
  ultimately show ?thesis by (auto simp add: new_calls_def)
qed

lemma gen_params_get:
  "dict_get (make_gen_params mnt temp tp) ''max_new_tokens'' d = int_value mnt"
  "dict_get (make_gen_params mnt temp tp) ''temperature'' d = float_value temp"
  "dict_get (make_gen_params mnt temp tp) ''top_p'' d = float_value tp"
  by (simp_all add: dict_get_def make_gen_params_def)

lemma config_when_sampling:
  assumes "make_generation_config lib t (make_gen_params (Some n) (Some (Fin a)) (Some (Fin b)))
             = Inr cfg" and "0 < a"
  shows "cfg ''max_new_tokens'' = Some (PInt n) \<and> cfg ''temperature'' = Some (PFloat (Fin a)) \<and>
         cfg ''top_p'' = Some (PFloat (Fin b)) \<and> cfg ''do_sample'' = Some (PBool True)"
  using assms
  by (auto simp add: make_generation_config_def gen_params_get greedy_requested_def
      py_le_float_def py_ge_float_def Let_def)

lemma config_exists_when_sampling:
  "0 < a \<Longrightarrow> \<exists>cfg. make_generation_config lib t
       (make_gen_params (Some n) (Some (Fin a)) (Some (Fin b))) = Inr cfg"
  by (simp add: make_generation_config_def gen_params_get greedy_requested_def
      py_le_float_def py_ge_float_def Let_def)

lemma demo_body_valid_emergency:
  "validate_EmergencyAssessmentRequest demo_body = Inr demo_emergency_request"
  by (simp add: validate_EmergencyAssessmentRequest_def demo_body_def demo_emergency_request_def)

lemma demo_generate_response_generates:
  assumes "0 < a"
  shows "\<exists>ids am cfg. ModelGenerate ids am cfg
     \<in> set (new_calls demo_loaded_16
          (snd (generate_response (demo_lib False) pr cd b u h
                  (make_gen_params (Some n) (Some (Fin a)) (Some (Fin c))) pd rng
                  demo_loaded_16)))"
proof -
  let ?gp = "make_gen_params (Some n) (Some (Fin a)) (Some (Fin c))"
  let ?t = "''ruslanmv/Medical-Llama3-v2''"
  let ?msgs = "build_messages (effective_system_prompt b pd) h u"
  let ?p = "concat (map content ?msgs)"
  have t: "tokenizer demo_loaded_16 = Some ?t" by (simp add: demo_loaded_16_eq)
  have m: "model demo_loaded_16 = Some \<lparr>cache_dir = None, trust_remote_code = True,
      quantization_config = None, torch_dtype = Some float16\<rparr>"
    by (simp add: demo_loaded_16_eq)
  obtain cfg where cfg: "make_generation_config (demo_lib False) ?t ?gp = Inr cfg"
    using config_exists_when_sampling[OF assms, of "demo_lib False" ?t n c] by blast
  have ap: "apply_chat_template (demo_lib False) ?t ?msgs = Inr ?p"
    by (simp add: demo_lib_def)
  have tk: "tokenizer_call (demo_lib False) ?t ?p True 4096 =
      Inr \<lparr>input_ids = take 4096 (map of_char ?p), attention_mask = None\<rparr>"
    by (simp add: demo_lib_def)
  from generate_response_loaded_calls[OF t m ap tk cfg] show ?thesis by blast
qed

lemma demo_chat_state:
  "snd (chat (demo_lib False) pr cd rng demo_body demo_loaded_16) =
   snd (generate_response (demo_lib False) pr cd CHAT_SYSTEM_PROMPT ''and now?''
          [\<lparr>role = ''user'', content = ''my head aches''\<rparr>,
           \<lparr>role = ''assistant'', content = ''since when?''\<rparr>]
          (make_gen_params (Some 512) (Some (Fin (7/10))) (Some (Fin (9/10)))) None rng
          demo_loaded_16)"
  by (simp add: chat_def demo_body_valid demo_request_def to_response_snd)

lemma demo_emergency_state:
  "snd (emergency_assessment (demo_lib False) pr cd rng demo_body demo_loaded_16) =
   snd (generate_response (demo_lib False) pr cd EMERGENCY_SYSTEM_PROMPT ''and now?'' []
          (make_gen_params (Some 768) (Some (Fin (3/10))) (Some (Fin (7/10)))) None rng
          demo_loaded_16)"
  by (simp add: emergency_assessment_def demo_body_valid_emergency demo_emergency_request_def
      to_response_snd)

lemma demo_emergency_template:
  "\<exists>msgs. ApplyChatTemplate msgs
     \<in> set (new_calls demo_loaded_16
          (snd (emergency_assessment (demo_lib False) pr cd rng demo_body demo_loaded_16)))"
proof -
  have t: "tokenizer demo_loaded_16 = Some ''ruslanmv/Medical-Llama3-v2''"
    by (simp add: demo_loaded_16_eq)
  have l: "model demo_loaded_16 \<noteq> None" "tokenizer demo_loaded_16 \<noteq> None"
    by (simp_all add: demo_loaded_16_eq)
  let ?gp = "make_gen_params (Some 768) (Some (Fin (3/10))) (Some (Fin (7/10)))"
  from generation_body_first_call[OF t, of "demo_lib False" EMERGENCY_SYSTEM_PROMPT
      "''and now?''" "[]" ?gp None rng]
  obtain cs where "lib_calls (snd (generation_body (demo_lib False) EMERGENCY_SYSTEM_PROMPT
      ''and now?'' [] ?gp None rng demo_loaded_16)) = lib_calls demo_loaded_16 @
      ApplyChatTemplate (build_messages (effective_system_prompt EMERGENCY_SYSTEM_PROMPT None)
        [] ''and now?'') # cs"
    by blast
  moreover have "snd (generate_response (demo_lib False) pr cd EMERGENCY_SYSTEM_PROMPT
      ''and now?'' [] ?gp None rng demo_loaded_16) =
      snd (generation_body (demo_lib False) EMERGENCY_SYSTEM_PROMPT
      ''and now?'' [] ?gp None rng demo_loaded_16)"
    using generate_response_loaded[OF l] by simp
  ultimately have "new_calls demo_loaded_16
      (snd (emergency_assessment (demo_lib False) pr cd rng demo_body demo_loaded_16)) =
      ApplyChatTemplate (build_messages (effective_system_prompt EMERGENCY_SYSTEM_PROMPT None)
        [] ''and now?'') # cs"
    unfolding demo_emergency_state by (simp add: new_calls_def)
  then show ?thesis by (simp add: exI[of _ "build_messages
      (effective_system_prompt EMERGENCY_SYSTEM_PROMPT None) [] ''and now?''"])
qed

lemma clear_previous_model_held:
  "model st \<noteq> None \<Longrightarrow>
     clear_previous_model lib st =
       st\<lparr>model := None, tokenizer := None, model_id_loaded := None,
          lib_calls := lib_calls st @
            GcCollect # (if cuda_is_available lib then [CudaEmptyCache] else [])\<rparr>"
  by (simp add: clear_previous_model_def collect_garbage_def log_call_def Let_def)

lemma clear_previous_model_none:
  "model st = None \<Longrightarrow> clear_previous_model lib st = st"
  by (simp add: clear_previous_model_def)

lemma load_after_clear:
  assumes "\<not> (model st \<noteq> None \<and> model_id_loaded st = Some HARDCODED_MODEL_ID)"
  shows "load_model_and_tokenizer lib precision cd st =
         load_model_and_tokenizer lib precision cd (clear_previous_model lib st)"
proof -
  have m: "model (clear_previous_model lib st) = None"
    by (simp add: clear_previous_model_fields)
  have i: "clear_previous_model lib (clear_previous_model lib st) = clear_previous_model lib st"
    using m by (rule clear_previous_model_none)
  show ?thesis
    using assms m i by (auto simp add: load_model_and_tokenizer_def Let_def)
qed

lemma load_model_id:
  "load_model lib mid kw dev st = (r, st') \<Longrightarrow> model st' \<noteq> None \<Longrightarrow>
     model_id_loaded st' = Some mid"
  by (auto simp add: load_model_def reset_session_def Let_def split: sum.splits)

lemma load_keeps_model_id:
  assumes "model st \<noteq> None \<longrightarrow> model_id_loaded st = Some HARDCODED_MODEL_ID"
  shows "model (snd (load_model_and_tokenizer lib precision cd st)) \<noteq> None \<longrightarrow>
         model_id_loaded (snd (load_model_and_tokenizer lib precision cd st))
           = Some HARDCODED_MODEL_ID"
proof (cases "model st \<noteq> None \<and> model_id_loaded st = Some HARDCODED_MODEL_ID")
  case True
  then show ?thesis by (simp add: load_model_and_tokenizer_def)
next
  case False
  obtain dev p where sd: "select_device lib precision = (dev, p)" by fastforce
  define st2 where "st2 = (clear_previous_model lib st)\<lparr>device := Some dev\<rparr>"
  obtain r3 st3 where lt: "load_tokenizer lib HARDCODED_MODEL_ID cd st2 = (r3, st3)" by fastforce
  have m2: "model st2 = None" by (simp add: st2_def clear_previous_model_fields)
  note t3 = load_tokenizer_result[OF lt]
  show ?thesis
  proof (cases r3)
    case (Inl e)
    with False sd lt have "snd (load_model_and_tokenizer lib precision cd st) = st3"
      by (auto simp add: load_model_and_tokenizer_def Let_def st2_def[symmetric])
    with t3 m2 show ?thesis by simp
  next
    case (Inr u)
    with False sd lt have "load_model_and_tokenizer lib precision cd st =
        load_model lib HARDCODED_MODEL_ID (make_model_kwargs p dev cd) dev st3"
      by (auto simp add: load_model_and_tokenizer_def Let_def st2_def[symmetric])
    then show ?thesis
      using load_model_id[of lib HARDCODED_MODEL_ID "make_model_kwargs p dev cd" dev st3]
      by (metis prod.collapse)
  qed
qed

lemma generate_response_keeps_model_id:
  assumes "model st \<noteq> None \<longrightarrow> model_id_loaded st = Some HARDCODED_MODEL_ID"
  shows "model (snd (generate_response lib precision cd b u h gp pd rng st)) \<noteq> None \<longrightarrow>
         model_id_loaded (snd (generate_response lib precision cd b u h gp pd rng st))
           = Some HARDCODED_MODEL_ID"
proof -
  obtain r st1 where ll: "lazy_load lib precision cd st = (r, st1)" by fastforce
  have c1: "model st1 \<noteq> None \<longrightarrow> model_id_loaded st1 = Some HARDCODED_MODEL_ID"
    using load_keeps_model_id[OF assms, of lib precision cd] ll assms
    by (auto simp add: lazy_load_def split: if_splits)
  show ?thesis
  proof (cases r)
    case (Inl e)
    with ll c1 show ?thesis by (simp add: generate_response_def)
  next
    case (Inr x)
    obtain r2 st2 where gb: "generation_body lib b u h gp pd rng st1 = (r2, st2)" by fastforce
    have "model st2 \<noteq> None \<longrightarrow> model_id_loaded st2 = Some HARDCODED_MODEL_ID"
      using generation_body_fields[of lib b u h gp pd rng st1] gb c1 by simp
    with ll Inr gb show ?thesis by (simp add: generate_response_def split: sum.splits)
  qed
qed

lemma reachable_model_id:
  "reachable lib precision cd st \<Longrightarrow>
     model st \<noteq> None \<longrightarrow> model_id_loaded st = Some HARDCODED_MODEL_ID"
proof (induction rule: reachable.induct)
  case at_import
  then show ?case by (simp add: initial_session_def)
next
  case (preload st)
  then show ?case by (simp add: load_keeps_model_id)
next
  case (health st)
  then show ?case by (simp add: health_check_unchanged)
next
  case (chat_request st rng body)
  then show ?case
    by (auto simp add: chat_def to_response_snd generate_response_keeps_model_id
        split: sum.splits)
next
  case (emergency_request st rng body)
  then show ?case
    by (auto simp add: emergency_assessment_def to_response_snd
        generate_response_keeps_model_id split: sum.splits)
qed

lemma load_tokenizer_failure:
  "tokenizer_from_pretrained lib mid cd = Inl e \<Longrightarrow>
     load_tokenizer lib mid cd st = (Inl e, log_call (TokenizerFromPretrained mid cd) st)"
  by (simp add: load_tokenizer_def Let_def)

lemma load_from_stale_calls:
  assumes h: "model st \<noteq> None \<and> model_id_loaded st \<noteq> Some HARDCODED_MODEL_ID"
  shows "\<exists>cs. new_calls st (snd (load_model_and_tokenizer lib precision cd st)) =
          GcCollect # (if cuda_is_available lib then [CudaEmptyCache] else []) @
          TokenizerFromPretrained HARDCODED_MODEL_ID cd # cs"
proof -
  obtain dev p where sd: "select_device lib precision = (dev, p)" by fastforce
  define st2 where "st2 = (clear_previous_model lib st)\<lparr>device := Some dev\<rparr>"
  obtain r st3 where lt: "load_tokenizer lib HARDCODED_MODEL_ID cd st2 = (r, st3)" by fastforce
  have c2: "lib_calls st2 = lib_calls st @
      GcCollect # (if cuda_is_available lib then [CudaEmptyCache] else [])"
    using h by (simp add: st2_def clear_previous_model_calls)
  have c3: "lib_calls st3 = lib_calls st2 @ [TokenizerFromPretrained HARDCODED_MODEL_ID cd]"
    using load_tokenizer_calls[of lib HARDCODED_MODEL_ID cd st2] lt by simp
  show ?thesis
  proof (cases r)
    case (Inl e)
    with h sd lt have "snd (load_model_and_tokenizer lib precision cd st) = st3"
      by (auto simp add: load_model_and_tokenizer_def Let_def st2_def[symmetric])
    with c2 c3 show ?thesis by (simp add: new_calls_def)
  next
    case (Inr u)
    obtain cs where cs: "lib_calls (snd (load_model lib HARDCODED_MODEL_ID
          (make_model_kwargs p dev cd) dev st3))
        = lib_calls st3 @ ModelFromPretrained HARDCODED_MODEL_ID (make_model_kwargs p dev cd) # cs"
      using load_model_calls by blast
    from Inr h sd lt have "snd (load_model_and_tokenizer lib precision cd st) =
        snd (load_model lib HARDCODED_MODEL_ID (make_model_kwargs p dev cd) dev st3)"
      by (auto simp add: load_model_and_tokenizer_def Let_def st2_def[symmetric])
    with cs c2 c3 show ?thesis by (simp add: new_calls_def)
  qed
qed

lemma load_from_unloaded_calls:
  assumes h: "model st = None"
  shows "\<exists>cs. new_calls st (snd (load_model_and_tokenizer lib precision cd st)) =
          TokenizerFromPretrained HARDCODED_MODEL_ID cd # cs"
proof -
  obtain dev p where sd: "select_device lib precision = (dev, p)" by fastforce
  define st2 where "st2 = (clear_previous_model lib st)\<lparr>device := Some dev\<rparr>"
  obtain r st3 where lt: "load_tokenizer lib HARDCODED_MODEL_ID cd st2 = (r, st3)" by fastforce
  have c2: "lib_calls st2 = lib_calls st"
    using h by (simp add: st2_def clear_previous_model_calls)
  have c3: "lib_calls st3 = lib_calls st2 @ [TokenizerFromPretrained HARDCODED_MODEL_ID cd]"
    using load_tokenizer_calls[of lib HARDCODED_MODEL_ID cd st2] lt by simp
  show ?thesis
  proof (cases r)
    case (Inl e)
    with h sd lt have "snd (load_model_and_tokenizer lib precision cd st) = st3"
      by (auto simp add: load_model_and_tokenizer_def Let_def st2_def[symmetric])
    with c2 c3 show ?thesis by (simp add: new_calls_def)
  next
    case (Inr u)
    obtain cs where cs: "lib_calls (snd (load_model lib HARDCODED_MODEL_ID
          (make_model_kwargs p dev cd) dev st3))
        = lib_calls st3 @ ModelFromPretrained HARDCODED_MODEL_ID (make_model_kwargs p dev cd) # cs"
      using load_model_calls by blast
    from Inr h sd lt have "snd (load_model_and_tokenizer lib precision cd st) =
        snd (load_model lib HARDCODED_MODEL_ID (make_model_kwargs p dev cd) dev st3)"
      by (auto simp add: load_model_and_tokenizer_def Let_def st2_def[symmetric])
    with cs c2 c3 show ?thesis by (simp add: new_calls_def)
  qed
qed

lemma load_from_stale_tokenizer_failure:
  assumes h: "model st \<noteq> None \<and> model_id_loaded st \<noteq> Some HARDCODED_MODEL_ID"
    and f: "tokenizer_from_pretrained lib HARDCODED_MODEL_ID cd = Inl e"
  shows "load_model_and_tokenizer lib precision cd st =
     (Inl e,
      st\<lparr>model := None, tokenizer := None,
         device := Some (fst (select_device lib precision)), model_id_loaded := None,
         lib_calls := lib_calls st @
           GcCollect # (if cuda_is_available lib then [CudaEmptyCache] else []) @
           [TokenizerFromPretrained HARDCODED_MODEL_ID cd]\<rparr>)"
  using h
  by (auto simp add: load_model_and_tokenizer_def Let_def clear_previous_model_held
      load_tokenizer_failure[OF f] log_call_def split: prod.splits)

lemma demo_lib_cuda [simp]:
  "cuda_is_available (demo_lib c) = c"
  "cuda_is_available failing_tokenizer_lib = False"
  by (simp_all add: demo_lib_def failing_tokenizer_lib_def)



lemma not_supported_None:
  "not_supported ''<='' PNone =
     CHR 0x27 # ''<='' @ CHR 0x27 # '' not supported between instances of '' @
     CHR 0x27 # ''NoneType'' @ CHR 0x27 # '' and '' @ CHR 0x27 # ''float'' @ [CHR 0x27]"
  by (simp add: not_supported_def quoted_def)





lemma generation_body_tokenizer_calls:
  "\<exists>cs. lib_calls (snd (generation_body lib b u h gp pd rng st)) = lib_calls st @ cs
     \<and> (\<forall>s tr n. TokenizerCall s tr n \<in> set cs \<longrightarrow> tr \<and> n = 4096)"
  by (auto simp add: generation_body_def Let_def split: option.splits sum.splits)

lemma generate_response_tokenizer_calls:
  assumes "TokenizerCall s tr n
     \<in> set (new_calls st (snd (generate_response lib precision cd b u h gp pd rng st)))"
  shows "tr \<and> n = 4096"
proof -
  obtain r st1 where ll: "lazy_load lib precision cd st = (r, st1)" by fastforce
  obtain cs1 where cs1: "lib_calls st1 = lib_calls st @ cs1" "\<forall>c \<in> set cs1. is_loader_call c"
    using lazy_load_calls[of lib precision cd st] ll by auto
  have nl: "TokenizerCall s tr n \<notin> set cs1"
    using cs1(2) by fastforce
  show ?thesis
  proof (cases r)
    case (Inl e)
    with ll have "snd (generate_response lib precision cd b u h gp pd rng st) = st1"
      by (simp add: generate_response_def)
    with assms cs1 nl show ?thesis by simp
  next
    case (Inr x)
    obtain cs2 where cs2:
      "lib_calls (snd (generation_body lib b u h gp pd rng st1)) = lib_calls st1 @ cs2"
      "\<forall>s tr n. TokenizerCall s tr n \<in> set cs2 \<longrightarrow> tr \<and> n = 4096"
      using generation_body_tokenizer_calls[of lib b u h gp pd rng st1] by blast
    have "snd (generate_response lib precision cd b u h gp pd rng st) =
        snd (generation_body lib b u h gp pd rng st1)"
      using ll Inr by (simp add: generate_response_def split: prod.splits sum.splits)
    with cs1 cs2 have "new_calls st (snd (generate_response lib precision cd b u h gp pd rng st))
        = cs1 @ cs2"
      by (simp add: new_calls_def)
    with assms nl cs2(2) show ?thesis by auto
  qed
qed

lemma demo_lib_fields:
  "apply_chat_template (demo_lib c) t msgs = Inr (concat (map content msgs))"
  "tokenizer_call (demo_lib c) t s tr n =
     Inr \<lparr>input_ids = (if tr then take n (map of_char s) else map of_char s),
          attention_mask = None\<rparr>"
  "generate (demo_lib c) m ids am cfg r =
     Inr (ids @ [if cfg ''do_sample'' = Some (PBool False) then 33 else 65 + r mod 26])"
  "decode (demo_lib c) t ids = Inr (map char_of ids)"
  by (simp_all add: demo_lib_def)

lemma demo_truncation_contract: "truncation_contract (demo_lib c)"
  by (simp add: truncation_contract_def demo_lib_fields)

lemma demo_loaded_16_fields:
  "tokenizer demo_loaded_16 = Some ''ruslanmv/Medical-Llama3-v2''"
  "model demo_loaded_16 = Some \<lparr>cache_dir = None, trust_remote_code = True,
      quantization_config = None, torch_dtype = Some float16\<rparr>"
  by (simp_all add: demo_loaded_16_eq)

lemma greedy_config:
  assumes "as_number (dict_get gp ''temperature'' (PFloat (Fin (7/10)))) = Some temp"
    and "float_le temp (Fin 0)"
    and "as_number (dict_get gp ''top_p'' (PFloat (Fin (9/10)))) = Some tp"
    and "float_le (Fin 1) tp"
  shows "\<exists>cfg. make_generation_config lib t gp = Inr cfg \<and>
           cfg ''do_sample'' = Some (PBool False) \<and>
           cfg ''temperature'' = None \<and> cfg ''top_p'' = None"
  using assms
  by (simp add: make_generation_config_def greedy_requested_def py_le_float_def py_ge_float_def
      Let_def)

lemma generation_body_rng:
  assumes g: "\<And>t m ids am cfg. make_generation_config lib t gp = Inr cfg \<Longrightarrow>
                generate lib m ids am cfg r = generate lib m ids am cfg r'"
  shows "generation_body lib b u h gp pd r st = generation_body lib b u h gp pd r' st"
proof (cases "tokenizer st")
  case None
  then show ?thesis by (simp add: generation_body_def Let_def)
next
  case (Some t)
  show ?thesis
  proof (cases "make_generation_config lib t gp")
    case (Inl e)
    with Some show ?thesis
      by (simp add: generation_body_def Let_def split: option.splits sum.splits)
  next
    case (Inr cfg)
    from g[OF Inr] Some Inr show ?thesis
      by (simp add: generation_body_def Let_def split: option.splits sum.splits)
  qed
qed

lemma generation_body_same_objects:
  "model st = model st' \<Longrightarrow> tokenizer st = tokenizer st' \<Longrightarrow>
     fst (generation_body lib b u h gp pd rng st) = fst (generation_body lib b u h gp pd rng st')"
  by (simp add: generation_body_def Let_def split: option.splits sum.splits)

lemma generation_body_success:
  "fst (generation_body lib b u h gp pd rng st) = Inr a \<Longrightarrow>
     model st \<noteq> None \<and> tokenizer st \<noteq> None"
  by (auto simp add: generation_body_def Let_def split: option.splits sum.splits)

lemma demo_greedy_is_deterministic: "greedy_is_deterministic (demo_lib c)"
  by (simp add: greedy_is_deterministic_def demo_lib_fields)

lemma demo_generates_and_answers:
  assumes cfg: "make_generation_config (demo_lib False) ''ruslanmv/Medical-Llama3-v2'' gp = Inr cfg"
  shows "(\<exists>ids am. ModelGenerate ids am cfg
            \<in> set (new_calls demo_loaded_16
                 (snd (generate_response (demo_lib False) pr cd b u h gp pd rng
                         demo_loaded_16)))) \<and>
         (\<exists>answer. fst (generate_response (demo_lib False) pr cd b u h gp pd rng demo_loaded_16)
            = Inr answer)"
proof -
  let ?t = "''ruslanmv/Medical-Llama3-v2''"
  let ?msgs = "build_messages (effective_system_prompt b pd) h u"
  let ?p = "concat (map content ?msgs)"
  let ?enc = "\<lparr>input_ids = take 4096 (map of_char ?p), attention_mask = None\<rparr>"
  have ap: "apply_chat_template (demo_lib False) ?t ?msgs = Inr ?p"
    by (simp add: demo_lib_fields)
  have tk: "tokenizer_call (demo_lib False) ?t ?p True 4096 = Inr ?enc"
    by (simp add: demo_lib_fields)
  note t = demo_loaded_16_fields(1)
  note m = demo_loaded_16_fields(2)
  have l: "model demo_loaded_16 \<noteq> None" "tokenizer demo_loaded_16 \<noteq> None"
    by (simp_all add: demo_loaded_16_fields)
  from generate_response_loaded_calls[OF t m ap tk cfg, of pr cd rng]
  have a: "\<exists>ids am. ModelGenerate ids am cfg
            \<in> set (new_calls demo_loaded_16
                 (snd (generate_response (demo_lib False) pr cd b u h gp pd rng
                         demo_loaded_16)))"
    by blast
  from generation_body_loaded[OF t m ap tk cfg, of rng]
  have "\<exists>answer. fst (generation_body (demo_lib False) b u h gp pd rng demo_loaded_16)
      = Inr answer"
    by (auto simp add: demo_lib_fields)
  with generate_response_loaded[OF l, of "demo_lib False" pr cd b u h gp pd rng]
  have c: "\<exists>answer. fst (generate_response (demo_lib False) pr cd b u h gp pd rng
      demo_loaded_16) = Inr answer"
    by auto
  from a c show ?thesis by blast
qed

lemma dropWhile_unchanged: "xs \<noteq> [] \<Longrightarrow> \<not> P (hd xs) \<Longrightarrow> dropWhile P xs = xs"
  by (cases xs) simp_all

lemma strip_unchanged:
  assumes "s \<noteq> []" "\<not> isspace (hd s)" "\<not> isspace (last s)"
  shows "strip s = s"
proof -
  have a: "dropWhile isspace s = s"
    using assms(1,2) by (rule dropWhile_unchanged)
  have "rev s \<noteq> []" "\<not> isspace (hd (rev s))"
    using assms(1,3) by (simp_all add: hd_rev)
  then have b: "dropWhile isspace (rev s) = rev s"
    by (rule dropWhile_unchanged)
  show ?thesis by (simp add: strip_def a b)
qed

lemma digit_char_not_space: "d < 10 \<Longrightarrow> \<not> isspace (digit_char d)"
  by (simp add: isspace_def digit_char_def Let_def)

lemma str_nat_last: "str_nat n \<noteq> [] \<and> last (str_nat n) = digit_char (n mod 10)"
  by (subst (1 2) str_nat.simps) simp

lemma str_int_last: "str_int i \<noteq> [] \<and> \<not> isspace (last (str_int i))"
proof -
  have "\<not> isspace (last (str_nat n))" for n
    using str_nat_last[of n] digit_char_not_space[of "n mod 10"] by simp
  then show ?thesis
    using str_nat_last by (simp add: str_int_def)
qed

lemma profile_parts_only_age:
  "profile_parts (only_age a) = (if a = 0 then [] else [''- Age: '' @ str_int a])"
  by (simp add: profile_parts_def only_age_def)

lemma age_block_strip:
  "strip (''User Profile:\<newline>'' @ join ''\<newline>'' [''- Age: '' @ str_int a]) =
     ''User Profile:\<newline>- Age: '' @ str_int a"
proof -
  have "strip (''User Profile:\<newline>- Age: '' @ str_int a) = ''User Profile:\<newline>- Age: '' @ str_int a"
    using str_int_last[of a]
    by (intro strip_unchanged) (simp_all add: isspace_def Let_def)
  then show ?thesis by simp
qed

lemma effective_system_prompt_only_age:
  "effective_system_prompt b (Some (only_age a)) =
     (if a = 0 then b else ''User Profile:\<newline>- Age: '' @ str_int a @ ''\<newline>\<newline>'' @ b)"
proof (cases "a = 0")
  case True
  then show ?thesis by (simp add: effective_system_prompt_def profile_parts_only_age)
next
  case False
  have "profile_dict_nonempty (only_age a)"
    by (simp add: profile_dict_nonempty_def only_age_def)
  with False show ?thesis
    using age_block_strip[of a]
    by (simp add: effective_system_prompt_def profile_parts_only_age)
qed

lemma str_int_34: "str_int 34 = ''34''"
  by code_simp

lemma age_zero_chat_state:
  "snd (chat (demo_lib False) pr cd rng age_zero_body demo_loaded_16) =
   snd (generation_body (demo_lib False) CHAT_SYSTEM_PROMPT ''and now?'' []
          (make_gen_params (Some 512) (Some (Fin (7/10))) (Some (Fin (9/10))))
          (Some (only_age 0)) rng demo_loaded_16)"
proof -
  have l: "model demo_loaded_16 \<noteq> None" "tokenizer demo_loaded_16 \<noteq> None"
    by (simp_all add: demo_loaded_16_fields)
  have v: "validate_ChatRequest age_zero_body =
      Inr \<lparr>ChatRequest.prompt = ''and now?'', history = [],
           ChatRequest.user_profile = Some (only_age 0),
           ChatRequest.max_new_tokens = Some 512,
           ChatRequest.temperature = Some (Fin (7/10)),
           ChatRequest.top_p = Some (Fin (9/10))\<rparr>"
    by (simp add: validate_ChatRequest_def age_zero_body_def)
  show ?thesis
    using generate_response_loaded[OF l]
    by (simp add: chat_def v to_response_snd)
qed

section \<open>The claims\<close>

text \<open>
  C7. \<^verbatim>\<open>GET /health\<close> reports \<^verbatim>\<open>"loaded"\<close> exactly when both the model and the tokenizer
  are set, \<^verbatim>\<open>"not loaded"\<close> otherwise, and returns the session as it found it: no global is
  written and no library call is made, so it never triggers a load.
\<close>

theorem health_check_reports_load_status:
  "snd (health_check st) = st \<and>
   (model_status (fst (health_check st)) = ''loaded'' \<longleftrightarrow>
      model st \<noteq> None \<and> tokenizer st \<noteq> None) \<and>
   (model_status (fst (health_check st)) = ''not loaded'' \<longleftrightarrow>
      \<not> (model st \<noteq> None \<and> tokenizer st \<noteq> None))"
  by (simp add: health_check_def Let_def)

theorem health_check_reports_load_status_witness:
  "model_status (fst (health_check (initial_session :: (model_kwargs, string) session)))
     = ''not loaded'' \<and>
   model_status (fst (health_check demo_loaded_16)) = ''loaded'' \<and>
   snd (health_check demo_loaded_16) = demo_loaded_16"
  using health_check_reports_load_status[of "initial_session :: (model_kwargs, string) session"]
    health_check_reports_load_status[of demo_loaded_16]
  by (simp add: demo_loaded_16_eq initial_session_def)

text \<open>
  C8. Whatever model load the loader starts, its keyword arguments carry a quantization
  config exactly when the requested precision is \<^verbatim>\<open>"4-bit"\<close> and CUDA is available. A
  request for \<^verbatim>\<open>"4-bit"\<close> without CUDA loads with \<^verbatim>\<open>torch_dtype=float16\<close> and no
  quantization config: it falls back to 16-bit.
\<close>

theorem four_bit_only_with_accelerator:
  assumes "ModelFromPretrained mid kw
             \<in> set (new_calls st (snd (load_model_and_tokenizer lib precision cd st)))"
  shows "(quantization_config kw \<noteq> None \<longleftrightarrow> precision = ''4-bit'' \<and> cuda_is_available lib) \<and>
         (precision = ''4-bit'' \<and> \<not> cuda_is_available lib \<longrightarrow>
            quantization_config kw = None \<and> torch_dtype kw = Some float16)"
proof -
  obtain cs where cs:
      "lib_calls (snd (load_model_and_tokenizer lib precision cd st)) = lib_calls st @ cs"
    and k: "\<forall>mid kw. ModelFromPretrained mid kw \<in> set cs \<longrightarrow> kw = kwargs_used lib precision cd"
    using load_calls[of lib precision cd st] by blast
  from cs have "new_calls st (snd (load_model_and_tokenizer lib precision cd st)) = cs" by simp
  with assms k have "kw = kwargs_used lib precision cd" by auto
  then show ?thesis
    by (auto simp add: kwargs_used_def select_device_def make_model_kwargs_def Let_def)
qed

theorem four_bit_only_with_accelerator_witness:
  "ModelFromPretrained HARDCODED_MODEL_ID
      \<lparr>cache_dir = None, trust_remote_code = True, quantization_config = None,
       torch_dtype = Some float16\<rparr>
     \<in> set (new_calls initial_session
              (snd (load_model_and_tokenizer (demo_lib False) ''4-bit'' None initial_session))) \<and>
   \<not> cuda_is_available (demo_lib False) \<and>
   torch_dtype \<lparr>cache_dir = None, trust_remote_code = True, quantization_config = None,
       torch_dtype = Some float16\<rparr> = Some float16"
proof -
  have h: "ModelFromPretrained HARDCODED_MODEL_ID
      \<lparr>cache_dir = None, trust_remote_code = True, quantization_config = None,
       torch_dtype = Some float16\<rparr>
     \<in> set (new_calls initial_session
              (snd (load_model_and_tokenizer (demo_lib False) ''4-bit'' None initial_session)))"
    by (simp add: demo_eval)
  show ?thesis
    using h four_bit_only_with_accelerator[OF h] by (simp add: demo_lib_def)
qed

text \<open>
  C9. When the model-loading step of \<^verbatim>\<open>load_model_and_tokenizer\<close> raises, the handler leaves
  \<^verbatim>\<open>model\<close>, \<^verbatim>\<open>tokenizer\<close> and \<^verbatim>\<open>model_id_loaded\<close> all \<^verbatim>\<open>None\<close>, so the health check
  that follows reports \<^verbatim>\<open>"not loaded"\<close>. The same holds for the whole loader whenever the
  exception it raises is not the one of the tokenizer load; in either case the model is
  \<^verbatim>\<open>None\<close>. In every session the server can reach, the model is set only when the tokenizer
  and \<^verbatim>\<open>model_id_loaded\<close> are set as well.
\<close>

theorem failed_model_load_resets_session:
  "(load_model lib mid kw dev st = (Inl e, st') \<longrightarrow>
      model st' = None \<and> tokenizer st' = None \<and> model_id_loaded st' = None \<and>
      model_status (fst (health_check st')) = ''not loaded'') \<and>
   (load_model_and_tokenizer lib precision cd st = (Inl e, st') \<longrightarrow>
      model st' = None \<and> model_status (fst (health_check st')) = ''not loaded'' \<and>
      (tokenizer_from_pretrained lib HARDCODED_MODEL_ID cd \<noteq> Inl e \<longrightarrow>
         tokenizer st' = None \<and> model_id_loaded st' = None)) \<and>
   (reachable lib precision cd st \<longrightarrow>
      (model st \<noteq> None \<longrightarrow> tokenizer st \<noteq> None \<and> model_id_loaded st \<noteq> None))"
proof -
  have a: "load_model lib mid kw dev st = (Inl e, st') \<longrightarrow>
      model st' = None \<and> tokenizer st' = None \<and> model_id_loaded st' = None \<and>
      model_status (fst (health_check st')) = ''not loaded''"
    using load_model_failure[of lib mid kw dev st e st'] by (simp add: health_check_def)
  have b: "load_model_and_tokenizer lib precision cd st = (Inl e, st') \<longrightarrow>
      model st' = None \<and> model_status (fst (health_check st')) = ''not loaded'' \<and>
      (tokenizer_from_pretrained lib HARDCODED_MODEL_ID cd \<noteq> Inl e \<longrightarrow>
         tokenizer st' = None \<and> model_id_loaded st' = None)"
    using load_outcome[of lib precision cd st "Inl e" st'] by (simp add: health_check_def)
  have c: "reachable lib precision cd st \<longrightarrow>
      (model st \<noteq> None \<longrightarrow> tokenizer st \<noteq> None \<and> model_id_loaded st \<noteq> None)"
    using reachable_consistent[of lib precision cd st] by (simp add: session_consistent_def)
  from a b c show ?thesis by blast
qed

theorem failed_model_load_resets_session_witness:
  "load_model_and_tokenizer failing_model_lib ''16-bit'' None initial_session =
     (Inl (LibraryError ''no weights''), failed_session) \<and>
   tokenizer_from_pretrained failing_model_lib HARDCODED_MODEL_ID None
     \<noteq> Inl (LibraryError ''no weights'') \<and>
   model failed_session = None \<and> tokenizer failed_session = None \<and>
   model_id_loaded failed_session = None \<and>
   model_status (fst (health_check failed_session)) = ''not loaded'' \<and>
   load_model failing_model_lib HARDCODED_MODEL_ID
      (make_model_kwargs ''16-bit'' (TorchDevice CPU None) None) (TorchDevice CPU None)
      demo_loaded_16 =
     (Inl (LibraryError ''no weights''),
      snd (load_model failing_model_lib HARDCODED_MODEL_ID
        (make_model_kwargs ''16-bit'' (TorchDevice CPU None) None) (TorchDevice CPU None)
        demo_loaded_16)) \<and>
   tokenizer (snd (load_model failing_model_lib HARDCODED_MODEL_ID
        (make_model_kwargs ''16-bit'' (TorchDevice CPU None) None) (TorchDevice CPU None)
        demo_loaded_16)) = None \<and>
   reachable (demo_lib False) ''16-bit'' None demo_loaded_16 \<and>
   model demo_loaded_16 \<noteq> None \<and> tokenizer demo_loaded_16 \<noteq> None \<and>
   model_id_loaded demo_loaded_16 \<noteq> None"
proof -
  have l: "load_model_and_tokenizer failing_model_lib ''16-bit'' None initial_session =
     (Inl (LibraryError ''no weights''), failed_session)"
    by (simp add: failing_load failed_session_def)
  have t: "tokenizer_from_pretrained failing_model_lib HARDCODED_MODEL_ID None
     \<noteq> Inl (LibraryError ''no weights'')"
    by (simp add: failing_model_lib_def demo_lib_def)
  have m: "load_model failing_model_lib HARDCODED_MODEL_ID
      (make_model_kwargs ''16-bit'' (TorchDevice CPU None) None) (TorchDevice CPU None)
      demo_loaded_16 =
     (Inl (LibraryError ''no weights''),
      snd (load_model failing_model_lib HARDCODED_MODEL_ID
        (make_model_kwargs ''16-bit'' (TorchDevice CPU None) None) (TorchDevice CPU None)
        demo_loaded_16))"
    by (simp add: load_model_def failing_model_lib_def demo_lib_def Let_def)
  have r: "reachable (demo_lib False) ''16-bit'' None demo_loaded_16"
    unfolding demo_loaded_16_def by (rule reachable.preload[OF reachable.at_import])
  have n: "model demo_loaded_16 \<noteq> None" by (simp add: demo_loaded_16_eq)
  show ?thesis
    using l t m r n
      failed_model_load_resets_session[where lib = failing_model_lib and precision = "''16-bit''"
        and cd = None and st = initial_session and e = "LibraryError ''no weights''"
        and st' = failed_session]
      failed_model_load_resets_session[where lib = failing_model_lib and mid = HARDCODED_MODEL_ID
        and kw = "make_model_kwargs ''16-bit'' (TorchDevice CPU None) None"
        and dev = "TorchDevice CPU None" and st = demo_loaded_16
        and e = "LibraryError ''no weights''"
        and st' = "snd (load_model failing_model_lib HARDCODED_MODEL_ID
           (make_model_kwargs ''16-bit'' (TorchDevice CPU None) None) (TorchDevice CPU None)
           demo_loaded_16)"]
      failed_model_load_resets_session[where lib = "demo_lib False" and precision = "''16-bit''"
        and cd = None and st = demo_loaded_16]
    by simp
qed

text \<open>
  C2 as stated fails on a change of precision: with a model loaded at 16-bit (its keyword
  arguments carry \<^verbatim>\<open>torch_dtype=float16\<close>, where a load at 32-bit would carry none), a call
  of the loader for 32-bit makes no library call at all and returns the session unchanged:
  nothing is freed and nothing is loaded.
\<close>

theorem precision_change_does_not_reload:
  "model demo_loaded_16 =
     Some \<lparr>cache_dir = None, trust_remote_code = True, quantization_config = None,
           torch_dtype = Some float16\<rparr> \<and>
   model (snd (load_model_and_tokenizer (demo_lib False) ''32-bit'' None initial_session)) =
     Some \<lparr>cache_dir = None, trust_remote_code = True, quantization_config = None,
           torch_dtype = None\<rparr> \<and>
   load_model_and_tokenizer (demo_lib False) ''32-bit'' None demo_loaded_16
     = (Inr (), demo_loaded_16) \<and>
   new_calls demo_loaded_16
     (snd (load_model_and_tokenizer (demo_lib False) ''32-bit'' None demo_loaded_16)) = []"
proof -
  have a: "load_model_and_tokenizer (demo_lib False) ''32-bit'' None demo_loaded_16
     = (Inr (), demo_loaded_16)"
    by (simp add: load_model_and_tokenizer_def demo_loaded_16_eq HARDCODED_MODEL_ID_def Let_def)
  have b: "model (snd (load_model_and_tokenizer (demo_lib False) ''32-bit'' None initial_session)) =
     Some \<lparr>cache_dir = None, trust_remote_code = True, quantization_config = None,
           torch_dtype = None\<rparr>"
    by (simp add: demo_eval)
  show ?thesis using a b by (simp add: demo_loaded_16_eq new_calls_def)
qed

text \<open>
  C4. Every message sequence that \<^verbatim>\<open>/chat\<close> hands to the chat template, for a request with
  a history of N turns, has length N + 2: the system message, the history in its given
  order, then the new user message. With a loaded model the template is called.
\<close>

theorem chat_message_sequence:
  assumes "validate_ChatRequest body = Inr request"
  shows "(ApplyChatTemplate msgs
            \<in> set (new_calls st (snd (chat lib precision cd rng body st))) \<longrightarrow>
          length msgs = length (history request) + 2 \<and>
          msgs = \<lparr>role = ''system'',
                  content = effective_system_prompt CHAT_SYSTEM_PROMPT
                              (ChatRequest.user_profile request)\<rparr>
                 # history request
                 @ [\<lparr>role = ''user'', content = ChatRequest.prompt request\<rparr>]) \<and>
         (model st \<noteq> None \<and> tokenizer st \<noteq> None \<longrightarrow>
          (\<exists>msgs'. ApplyChatTemplate msgs'
             \<in> set (new_calls st (snd (chat lib precision cd rng body st)))))"
proof -
  let ?gp = "make_gen_params (ChatRequest.max_new_tokens request)
               (ChatRequest.temperature request) (ChatRequest.top_p request)"
  let ?gr = "generate_response lib precision cd CHAT_SYSTEM_PROMPT (ChatRequest.prompt request)
               (history request) ?gp (ChatRequest.user_profile request) rng st"
  have st': "snd (chat lib precision cd rng body st) = snd ?gr"
    using assms by (simp add: chat_def to_response_snd)
  obtain cs where cs: "lib_calls (snd ?gr) = lib_calls st @ cs"
    and k: "\<forall>msgs. ApplyChatTemplate msgs \<in> set cs \<longrightarrow>
            msgs = build_messages (effective_system_prompt CHAT_SYSTEM_PROMPT
                     (ChatRequest.user_profile request)) (history request)
                     (ChatRequest.prompt request)"
    using generate_response_calls[of lib precision cd CHAT_SYSTEM_PROMPT
        "ChatRequest.prompt request" "history request" ?gp "ChatRequest.user_profile request" rng st]
    by blast
  have nc: "new_calls st (snd (chat lib precision cd rng body st)) = cs"
    using st' cs by simp
  have a: "ApplyChatTemplate msgs
            \<in> set (new_calls st (snd (chat lib precision cd rng body st))) \<longrightarrow>
          length msgs = length (history request) + 2 \<and>
          msgs = \<lparr>role = ''system'',
                  content = effective_system_prompt CHAT_SYSTEM_PROMPT
                              (ChatRequest.user_profile request)\<rparr>
                 # history request
                 @ [\<lparr>role = ''user'', content = ChatRequest.prompt request\<rparr>]"
    using k nc by (auto simp add: build_messages_def)
  have b: "\<exists>msgs'. ApplyChatTemplate msgs'
             \<in> set (new_calls st (snd (chat lib precision cd rng body st)))"
    if l: "model st \<noteq> None \<and> tokenizer st \<noteq> None"
  proof -
    from l obtain t where t: "tokenizer st = Some t" by auto
    from generation_body_first_call[OF t, of lib CHAT_SYSTEM_PROMPT "ChatRequest.prompt request"
        "history request" ?gp "ChatRequest.user_profile request" rng]
    obtain cs' where "lib_calls (snd (generation_body lib CHAT_SYSTEM_PROMPT
        (ChatRequest.prompt request) (history request) ?gp (ChatRequest.user_profile request)
        rng st)) = lib_calls st @ ApplyChatTemplate (build_messages
           (effective_system_prompt CHAT_SYSTEM_PROMPT (ChatRequest.user_profile request))
           (history request) (ChatRequest.prompt request)) # cs'"
      by blast
    with l st' generate_response_loaded[of st lib precision cd CHAT_SYSTEM_PROMPT
        "ChatRequest.prompt request" "history request" ?gp "ChatRequest.user_profile request" rng]
    show ?thesis by (auto simp add: new_calls_def)
  qed
  from a b show ?thesis by blast
qed

theorem chat_message_sequence_witness:
  "validate_ChatRequest demo_body = Inr demo_request \<and>
   length (history demo_request) = 2 \<and>
   model demo_loaded_16 \<noteq> None \<and> tokenizer demo_loaded_16 \<noteq> None \<and>
   (\<exists>msgs. ApplyChatTemplate msgs
       \<in> set (new_calls demo_loaded_16
                (snd (chat (demo_lib False) ''16-bit'' None 7 demo_body demo_loaded_16))) \<and>
      length msgs = 4 \<and>
      map role msgs = [''system'', ''user'', ''assistant'', ''user''])"
proof -
  have l: "model demo_loaded_16 \<noteq> None \<and> tokenizer demo_loaded_16 \<noteq> None"
    by (simp add: demo_loaded_16_eq)
  from chat_message_sequence[OF demo_body_valid, of "[]" demo_loaded_16 "demo_lib False"
      "''16-bit''" None 7] l
  obtain msgs where m: "ApplyChatTemplate msgs
       \<in> set (new_calls demo_loaded_16
                (snd (chat (demo_lib False) ''16-bit'' None 7 demo_body demo_loaded_16)))"
    by blast
  from chat_message_sequence[OF demo_body_valid, of msgs demo_loaded_16 "demo_lib False"
      "''16-bit''" None 7] m
  have "length msgs = 4 \<and> map role msgs = [''system'', ''user'', ''assistant'', ''user'']"
    by (simp add: demo_request_def)
  with m l show ?thesis
    by (auto simp add: demo_body_valid demo_request_def)
qed

text \<open>
  C10. A request that leaves the generation parameters out gets the defaults of its
  endpoint: \<^verbatim>\<open>/chat\<close> validates to 512, 0.7 and 0.9 and \<^verbatim>\<open>/emergency_assessment\<close> to 768,
  0.3 and 0.7, and these are the values in the configuration of every \<^verbatim>\<open>model.generate\<close>
  call of such a request. \<^verbatim>\<open>/emergency_assessment\<close> passes no history: every message
  sequence it hands to the chat template is the system message followed by the user
  message.
\<close>

theorem endpoint_defaults:
  "(validate_ChatRequest b = Inr r \<longrightarrow>
      (body_max_new_tokens b = Unset \<longrightarrow> ChatRequest.max_new_tokens r = Some 512) \<and>
      (body_temperature b = Unset \<longrightarrow> ChatRequest.temperature r = Some (Fin (7/10))) \<and>
      (body_top_p b = Unset \<longrightarrow> ChatRequest.top_p r = Some (Fin (9/10)))) \<and>
   (validate_EmergencyAssessmentRequest b = Inr r' \<longrightarrow>
      (body_max_new_tokens b = Unset \<longrightarrow>
         EmergencyAssessmentRequest.max_new_tokens r' = Some 768) \<and>
      (body_temperature b = Unset \<longrightarrow>
         EmergencyAssessmentRequest.temperature r' = Some (Fin (3/10))) \<and>
      (body_top_p b = Unset \<longrightarrow> EmergencyAssessmentRequest.top_p r' = Some (Fin (7/10)))) \<and>
   (body_max_new_tokens b = Unset \<and> body_temperature b = Unset \<and> body_top_p b = Unset \<longrightarrow>
      (ModelGenerate ids am cfg
         \<in> set (new_calls st (snd (chat lib precision cd rng b st))) \<longrightarrow>
       cfg ''max_new_tokens'' = Some (PInt 512) \<and>
       cfg ''temperature'' = Some (PFloat (Fin (7/10))) \<and>
       cfg ''top_p'' = Some (PFloat (Fin (9/10)))) \<and>
      (ModelGenerate ids am cfg
         \<in> set (new_calls st (snd (emergency_assessment lib precision cd rng b st))) \<longrightarrow>
       cfg ''max_new_tokens'' = Some (PInt 768) \<and>
       cfg ''temperature'' = Some (PFloat (Fin (3/10))) \<and>
       cfg ''top_p'' = Some (PFloat (Fin (7/10))))) \<and>
   (ApplyChatTemplate msgs
      \<in> set (new_calls st (snd (emergency_assessment lib precision cd rng b st))) \<longrightarrow>
    length msgs = 2 \<and> map role msgs = [''system'', ''user''])"
proof -
  have v1: "validate_ChatRequest b = Inr r \<longrightarrow>
      (body_max_new_tokens b = Unset \<longrightarrow> ChatRequest.max_new_tokens r = Some 512) \<and>
      (body_temperature b = Unset \<longrightarrow> ChatRequest.temperature r = Some (Fin (7/10))) \<and>
      (body_top_p b = Unset \<longrightarrow> ChatRequest.top_p r = Some (Fin (9/10)))"
    by (auto simp add: validate_ChatRequest_def split: sum.splits)
  have v2: "validate_EmergencyAssessmentRequest b = Inr r' \<longrightarrow>
      (body_max_new_tokens b = Unset \<longrightarrow>
         EmergencyAssessmentRequest.max_new_tokens r' = Some 768) \<and>
      (body_temperature b = Unset \<longrightarrow>
         EmergencyAssessmentRequest.temperature r' = Some (Fin (3/10))) \<and>
      (body_top_p b = Unset \<longrightarrow> EmergencyAssessmentRequest.top_p r' = Some (Fin (7/10)))"
    by (auto simp add: validate_EmergencyAssessmentRequest_def split: sum.splits)
  have c1: "cfg ''max_new_tokens'' = Some (PInt 512) \<and>
       cfg ''temperature'' = Some (PFloat (Fin (7/10))) \<and>
       cfg ''top_p'' = Some (PFloat (Fin (9/10)))"
    if u: "body_max_new_tokens b = Unset \<and> body_temperature b = Unset \<and> body_top_p b = Unset"
      and g: "ModelGenerate ids am cfg
         \<in> set (new_calls st (snd (chat lib precision cd rng b st)))"
  proof (cases "validate_ChatRequest b")
    case (Inl v)
    with g show ?thesis by (simp add: chat_def)
  next
    case (Inr req)
    let ?gp = "make_gen_params (Some 512) (Some (Fin (7/10))) (Some (Fin (9/10)))"
    from Inr u have p: "make_gen_params (ChatRequest.max_new_tokens req)
         (ChatRequest.temperature req) (ChatRequest.top_p req) = ?gp"
      by (auto simp add: validate_ChatRequest_def split: sum.splits)
    let ?gr = "generate_response lib precision cd CHAT_SYSTEM_PROMPT (ChatRequest.prompt req)
               (history req) ?gp (ChatRequest.user_profile req) rng st"
    have st': "snd (chat lib precision cd rng b st) = snd ?gr"
      using Inr p by (simp add: chat_def to_response_snd)
    obtain cs where cs: "lib_calls (snd ?gr) = lib_calls st @ cs"
      and k: "\<forall>ids am cfg. ModelGenerate ids am cfg \<in> set cs \<longrightarrow>
           (\<exists>t p enc. tokenizer_call lib t p True 4096 = Inr enc \<and> ids = input_ids enc
              \<and> make_generation_config lib t ?gp = Inr cfg)"
      using generate_response_calls[of lib precision cd CHAT_SYSTEM_PROMPT
          "ChatRequest.prompt req" "history req" ?gp "ChatRequest.user_profile req" rng st]
      by blast
    from g st' cs have "ModelGenerate ids am cfg \<in> set cs" by simp
    with k obtain t where "make_generation_config lib t ?gp = Inr cfg" by blast
    from config_when_sampling[OF this] show ?thesis by simp
  qed
  have c2: "cfg ''max_new_tokens'' = Some (PInt 768) \<and>
       cfg ''temperature'' = Some (PFloat (Fin (3/10))) \<and>
       cfg ''top_p'' = Some (PFloat (Fin (7/10)))"
    if u: "body_max_new_tokens b = Unset \<and> body_temperature b = Unset \<and> body_top_p b = Unset"
      and g: "ModelGenerate ids am cfg
         \<in> set (new_calls st (snd (emergency_assessment lib precision cd rng b st)))"
  proof (cases "validate_EmergencyAssessmentRequest b")
    case (Inl v)
    with g show ?thesis by (simp add: emergency_assessment_def)
  next
    case (Inr req)
    let ?gp = "make_gen_params (Some 768) (Some (Fin (3/10))) (Some (Fin (7/10)))"
    from Inr u have p: "make_gen_params (EmergencyAssessmentRequest.max_new_tokens req)
         (EmergencyAssessmentRequest.temperature req) (EmergencyAssessmentRequest.top_p req) = ?gp"
      by (auto simp add: validate_EmergencyAssessmentRequest_def split: sum.splits)
    let ?gr = "generate_response lib precision cd EMERGENCY_SYSTEM_PROMPT
               (EmergencyAssessmentRequest.prompt req) [] ?gp
               (EmergencyAssessmentRequest.user_profile req) rng st"
    have st': "snd (emergency_assessment lib precision cd rng b st) = snd ?gr"
      using Inr p by (simp add: emergency_assessment_def to_response_snd)
    obtain cs where cs: "lib_calls (snd ?gr) = lib_calls st @ cs"
      and k: "\<forall>ids am cfg. ModelGenerate ids am cfg \<in> set cs \<longrightarrow>
           (\<exists>t p enc. tokenizer_call lib t p True 4096 = Inr enc \<and> ids = input_ids enc
              \<and> make_generation_config lib t ?gp = Inr cfg)"
      using generate_response_calls[of lib precision cd EMERGENCY_SYSTEM_PROMPT
          "EmergencyAssessmentRequest.prompt req" "[]" ?gp
          "EmergencyAssessmentRequest.user_profile req" rng st]
      by blast
    from g st' cs have "ModelGenerate ids am cfg \<in> set cs" by simp
    with k obtain t where "make_generation_config lib t ?gp = Inr cfg" by blast
    from config_when_sampling[OF this] show ?thesis by simp
  qed
  have m: "length msgs = 2 \<and> map role msgs = [''system'', ''user'']"
    if g: "ApplyChatTemplate msgs
      \<in> set (new_calls st (snd (emergency_assessment lib precision cd rng b st)))"
  proof (cases "validate_EmergencyAssessmentRequest b")
    case (Inl v)
    with g show ?thesis by (simp add: emergency_assessment_def)
  next
    case (Inr req)
    let ?gp = "make_gen_params (EmergencyAssessmentRequest.max_new_tokens req)
         (EmergencyAssessmentRequest.temperature req) (EmergencyAssessmentRequest.top_p req)"
    let ?gr = "generate_response lib precision cd EMERGENCY_SYSTEM_PROMPT
               (EmergencyAssessmentRequest.prompt req) [] ?gp
               (EmergencyAssessmentRequest.user_profile req) rng st"
    have st': "snd (emergency_assessment lib precision cd rng b st) = snd ?gr"
      using Inr by (simp add: emergency_assessment_def to_response_snd)
    obtain cs where cs: "lib_calls (snd ?gr) = lib_calls st @ cs"
      and k: "\<forall>msgs. ApplyChatTemplate msgs \<in> set cs \<longrightarrow>
            msgs = build_messages (effective_system_prompt EMERGENCY_SYSTEM_PROMPT
                     (EmergencyAssessmentRequest.user_profile req)) []
                     (EmergencyAssessmentRequest.prompt req)"
      using generate_response_calls[of lib precision cd EMERGENCY_SYSTEM_PROMPT
          "EmergencyAssessmentRequest.prompt req" "[]" ?gp
          "EmergencyAssessmentRequest.user_profile req" rng st]
      by blast
    from g st' cs have "ApplyChatTemplate msgs \<in> set cs" by simp
    with k have "msgs = build_messages (effective_system_prompt EMERGENCY_SYSTEM_PROMPT
                     (EmergencyAssessmentRequest.user_profile req)) []
                     (EmergencyAssessmentRequest.prompt req)" by blast
    then show ?thesis by (simp add: build_messages_def)
  qed
  from v1 v2 c1 c2 m show ?thesis by blast
qed

theorem endpoint_defaults_witness:
  "validate_ChatRequest demo_body = Inr demo_request \<and>
   validate_EmergencyAssessmentRequest demo_body = Inr demo_emergency_request \<and>
   body_max_new_tokens demo_body = Unset \<and> body_temperature demo_body = Unset \<and>
   body_top_p demo_body = Unset \<and>
   ChatRequest.max_new_tokens demo_request = Some 512 \<and>
   ChatRequest.temperature demo_request = Some (Fin (7/10)) \<and>
   ChatRequest.top_p demo_request = Some (Fin (9/10)) \<and>
   EmergencyAssessmentRequest.max_new_tokens demo_emergency_request = Some 768 \<and>
   EmergencyAssessmentRequest.temperature demo_emergency_request = Some (Fin (3/10)) \<and>
   EmergencyAssessmentRequest.top_p demo_emergency_request = Some (Fin (7/10)) \<and>
   (\<exists>ids am cfg. ModelGenerate ids am cfg
      \<in> set (new_calls demo_loaded_16
           (snd (chat (demo_lib False) ''16-bit'' None 7 demo_body demo_loaded_16))) \<and>
      cfg ''max_new_tokens'' = Some (PInt 512) \<and>
      cfg ''temperature'' = Some (PFloat (Fin (7/10))) \<and>
      cfg ''top_p'' = Some (PFloat (Fin (9/10)))) \<and>
   (\<exists>ids am cfg. ModelGenerate ids am cfg
      \<in> set (new_calls demo_loaded_16
           (snd (emergency_assessment (demo_lib False) ''16-bit'' None 7 demo_body
                   demo_loaded_16))) \<and>
      cfg ''max_new_tokens'' = Some (PInt 768) \<and>
      cfg ''temperature'' = Some (PFloat (Fin (3/10))) \<and>
      cfg ''top_p'' = Some (PFloat (Fin (7/10)))) \<and>
   (\<exists>msgs. ApplyChatTemplate msgs
      \<in> set (new_calls demo_loaded_16
           (snd (emergency_assessment (demo_lib False) ''16-bit'' None 7 demo_body
                   demo_loaded_16))) \<and>
      length msgs = 2 \<and> map role msgs = [''system'', ''user''])"
proof -
  have u: "body_max_new_tokens demo_body = Unset \<and> body_temperature demo_body = Unset \<and>
      body_top_p demo_body = Unset"
    by (simp add: demo_body_def)
  have pos: "(0::real) < 7/10" "(0::real) < 3/10" by simp_all
  obtain ids1 am1 cfg1 where g1: "ModelGenerate ids1 am1 cfg1
      \<in> set (new_calls demo_loaded_16
           (snd (chat (demo_lib False) ''16-bit'' None 7 demo_body demo_loaded_16)))"
    unfolding demo_chat_state
    using demo_generate_response_generates[OF pos(1)] by blast
  obtain ids2 am2 cfg2 where g2: "ModelGenerate ids2 am2 cfg2
      \<in> set (new_calls demo_loaded_16
           (snd (emergency_assessment (demo_lib False) ''16-bit'' None 7 demo_body
                   demo_loaded_16)))"
    unfolding demo_emergency_state
    using demo_generate_response_generates[OF pos(2)] by blast
  obtain msgs where a: "ApplyChatTemplate msgs
      \<in> set (new_calls demo_loaded_16
           (snd (emergency_assessment (demo_lib False) ''16-bit'' None 7 demo_body
                   demo_loaded_16)))"
    using demo_emergency_template by blast
  note w1 = endpoint_defaults[where b = demo_body and r = demo_request
      and r' = demo_emergency_request and ids = ids1 and am = am1 and cfg = cfg1
      and st = demo_loaded_16 and lib = "demo_lib False" and precision = "''16-bit''"
      and cd = None and rng = 7 and msgs = msgs]
  note w2 = endpoint_defaults[where b = demo_body and r = demo_request
      and r' = demo_emergency_request and ids = ids2 and am = am2 and cfg = cfg2
      and st = demo_loaded_16 and lib = "demo_lib False" and precision = "''16-bit''"
      and cd = None and rng = 7 and msgs = msgs]
  from w1 u g1 have c1: "cfg1 ''max_new_tokens'' = Some (PInt 512) \<and>
      cfg1 ''temperature'' = Some (PFloat (Fin (7/10))) \<and>
      cfg1 ''top_p'' = Some (PFloat (Fin (9/10)))" by blast
  from w2 u g2 have c2: "cfg2 ''max_new_tokens'' = Some (PInt 768) \<and>
      cfg2 ''temperature'' = Some (PFloat (Fin (3/10))) \<and>
      cfg2 ''top_p'' = Some (PFloat (Fin (7/10)))" by blast
  from w1 a have c3: "length msgs = 2 \<and> map role msgs = [''system'', ''user'']" by blast
  from w1 demo_body_valid demo_body_valid_emergency u
  have v: "ChatRequest.max_new_tokens demo_request = Some 512 \<and>
   ChatRequest.temperature demo_request = Some (Fin (7/10)) \<and>
   ChatRequest.top_p demo_request = Some (Fin (9/10)) \<and>
   EmergencyAssessmentRequest.max_new_tokens demo_emergency_request = Some 768 \<and>
   EmergencyAssessmentRequest.temperature demo_emergency_request = Some (Fin (3/10)) \<and>
   EmergencyAssessmentRequest.top_p demo_emergency_request = Some (Fin (7/10))" by blast
  have e1: "\<exists>ids am cfg. ModelGenerate ids am cfg
      \<in> set (new_calls demo_loaded_16
           (snd (chat (demo_lib False) ''16-bit'' None 7 demo_body demo_loaded_16))) \<and>
      cfg ''max_new_tokens'' = Some (PInt 512) \<and>
      cfg ''temperature'' = Some (PFloat (Fin (7/10))) \<and>
      cfg ''top_p'' = Some (PFloat (Fin (9/10)))"
    using g1 c1 by (intro exI[of _ ids1] exI[of _ am1] exI[of _ cfg1]) simp
  have e2: "\<exists>ids am cfg. ModelGenerate ids am cfg
      \<in> set (new_calls demo_loaded_16
           (snd (emergency_assessment (demo_lib False) ''16-bit'' None 7 demo_body
                   demo_loaded_16))) \<and>
      cfg ''max_new_tokens'' = Some (PInt 768) \<and>
      cfg ''temperature'' = Some (PFloat (Fin (3/10))) \<and>
      cfg ''top_p'' = Some (PFloat (Fin (7/10)))"
    using g2 c2 by (intro exI[of _ ids2] exI[of _ am2] exI[of _ cfg2]) simp
  have e3: "\<exists>msgs. ApplyChatTemplate msgs
      \<in> set (new_calls demo_loaded_16
           (snd (emergency_assessment (demo_lib False) ''16-bit'' None 7 demo_body
                   demo_loaded_16))) \<and>
      length msgs = 2 \<and> map role msgs = [''system'', ''user'']"
    using a c3 by (intro exI[of _ msgs]) simp
  from u v e1 e2 e3 demo_body_valid demo_body_valid_emergency
  show ?thesis by simp
qed

text \<open>
  C2, as the code has it. The loader compares the model identifier only. When a model is
  held under \<^verbatim>\<open>HARDCODED_MODEL_ID\<close> the call returns at once and leaves the session as it
  is, for every requested precision and cache directory, so a change of precision does
  not reload. When a model is held under another identifier, the call is the load from
  the freed session: \<^verbatim>\<open>model\<close>, \<^verbatim>\<open>tokenizer\<close> and \<^verbatim>\<open>model_id_loaded\<close> are \<^verbatim>\<open>None\<close> and
  garbage is collected before the tokenizer is loaded, and if that load raises, the
  session is left with all three \<^verbatim>\<open>None\<close>. When no model is held there is nothing to free
  and the call starts with the tokenizer load. The identifier is fixed, so in every
  session the server can reach a held model is held under \<^verbatim>\<open>HARDCODED_MODEL_ID\<close>: the
  freeing branch is entered by no reachable session.
\<close>

theorem loader_skips_loaded_model_id:
  "(model st \<noteq> None \<and> model_id_loaded st = Some HARDCODED_MODEL_ID \<longrightarrow>
      load_model_and_tokenizer lib precision cd st = (Inr (), st)) \<and>
   (model st \<noteq> None \<and> model_id_loaded st \<noteq> Some HARDCODED_MODEL_ID \<longrightarrow>
      load_model_and_tokenizer lib precision cd st =
        load_model_and_tokenizer lib precision cd
          (st\<lparr>model := None, tokenizer := None, model_id_loaded := None,
              lib_calls := lib_calls st @
                GcCollect # (if cuda_is_available lib then [CudaEmptyCache] else [])\<rparr>) \<and>
      (\<exists>cs. new_calls st (snd (load_model_and_tokenizer lib precision cd st)) =
          GcCollect # (if cuda_is_available lib then [CudaEmptyCache] else []) @
          TokenizerFromPretrained HARDCODED_MODEL_ID cd # cs) \<and>
      (tokenizer_from_pretrained lib HARDCODED_MODEL_ID cd = Inl e \<longrightarrow>
         load_model_and_tokenizer lib precision cd st =
           (Inl e,
            st\<lparr>model := None, tokenizer := None,
               device := Some (fst (select_device lib precision)), model_id_loaded := None,
               lib_calls := lib_calls st @
                 GcCollect # (if cuda_is_available lib then [CudaEmptyCache] else []) @
                 [TokenizerFromPretrained HARDCODED_MODEL_ID cd]\<rparr>))) \<and>
   (model st = None \<longrightarrow>
      (\<exists>cs. new_calls st (snd (load_model_and_tokenizer lib precision cd st)) =
          TokenizerFromPretrained HARDCODED_MODEL_ID cd # cs)) \<and>
   (reachable lib precision cd st \<and> model st \<noteq> None \<longrightarrow>
      model_id_loaded st = Some HARDCODED_MODEL_ID)"
proof -
  have a: "model st \<noteq> None \<and> model_id_loaded st = Some HARDCODED_MODEL_ID \<longrightarrow>
      load_model_and_tokenizer lib precision cd st = (Inr (), st)"
    by (simp add: load_model_and_tokenizer_def)
  have b1: "load_model_and_tokenizer lib precision cd st =
        load_model_and_tokenizer lib precision cd
          (st\<lparr>model := None, tokenizer := None, model_id_loaded := None,
              lib_calls := lib_calls st @
                GcCollect # (if cuda_is_available lib then [CudaEmptyCache] else [])\<rparr>)"
    if h: "model st \<noteq> None \<and> model_id_loaded st \<noteq> Some HARDCODED_MODEL_ID"
  proof -
    from h have "\<not> (model st \<noteq> None \<and> model_id_loaded st = Some HARDCODED_MODEL_ID)" by simp
    from load_after_clear[OF this, of lib precision cd] h show ?thesis
      by (simp add: clear_previous_model_held)
  qed
  note b2 = load_from_stale_calls[of st lib precision cd]
  note b3 = load_from_stale_tokenizer_failure[of st lib cd e precision]
  note c = load_from_unloaded_calls[of st lib precision cd]
  note d = reachable_model_id[of lib precision cd st]
  from a b1 b2 b3 c d show ?thesis by blast
qed

theorem loader_skips_loaded_model_id_witness:
  "model demo_loaded_16 \<noteq> None \<and> model_id_loaded demo_loaded_16 = Some HARDCODED_MODEL_ID \<and>
   load_model_and_tokenizer (demo_lib False) ''32-bit'' (Some ''/cache'') demo_loaded_16
     = (Inr (), demo_loaded_16) \<and>
   reachable (demo_lib False) ''16-bit'' None demo_loaded_16 \<and>
   model stale_session \<noteq> None \<and> model_id_loaded stale_session \<noteq> Some HARDCODED_MODEL_ID \<and>
   load_model_and_tokenizer (demo_lib False) ''32-bit'' None stale_session =
     load_model_and_tokenizer (demo_lib False) ''32-bit'' None
       (stale_session\<lparr>model := None, tokenizer := None, model_id_loaded := None,
          lib_calls := lib_calls stale_session @ [GcCollect]\<rparr>) \<and>
   (\<exists>cs. new_calls stale_session
           (snd (load_model_and_tokenizer (demo_lib False) ''32-bit'' None stale_session)) =
         GcCollect # TokenizerFromPretrained HARDCODED_MODEL_ID None # cs) \<and>
   tokenizer_from_pretrained failing_tokenizer_lib HARDCODED_MODEL_ID None =
     Inl (LibraryError ''no tokenizer'') \<and>
   fst (load_model_and_tokenizer failing_tokenizer_lib ''32-bit'' None stale_session) =
     Inl (LibraryError ''no tokenizer'') \<and>
   model (snd (load_model_and_tokenizer failing_tokenizer_lib ''32-bit'' None stale_session))
     = None \<and>
   tokenizer (snd (load_model_and_tokenizer failing_tokenizer_lib ''32-bit'' None stale_session))
     = None \<and>
   model_id_loaded
     (snd (load_model_and_tokenizer failing_tokenizer_lib ''32-bit'' None stale_session))
     = None \<and>
   model (initial_session :: (model_kwargs, string) session) = None \<and>
   (\<exists>cs. new_calls initial_session
           (snd (load_model_and_tokenizer (demo_lib False) ''16-bit'' None initial_session)) =
         TokenizerFromPretrained HARDCODED_MODEL_ID None # cs)"
proof -
  have a: "model demo_loaded_16 \<noteq> None \<and> model_id_loaded demo_loaded_16 = Some HARDCODED_MODEL_ID"
    by (simp add: demo_loaded_16_eq HARDCODED_MODEL_ID_def)
  have b: "model stale_session \<noteq> None \<and> model_id_loaded stale_session \<noteq> Some HARDCODED_MODEL_ID"
    by (simp add: stale_session_def demo_loaded_16_eq HARDCODED_MODEL_ID_def)
  have t: "tokenizer_from_pretrained failing_tokenizer_lib HARDCODED_MODEL_ID None =
     Inl (LibraryError ''no tokenizer'')"
    by (simp add: failing_tokenizer_lib_def)
  have i: "model (initial_session :: (model_kwargs, string) session) = None"
    by (simp add: initial_session_def)
  have r: "reachable (demo_lib False) ''16-bit'' None demo_loaded_16"
    unfolding demo_loaded_16_def by (rule reachable.preload[OF reachable.at_import])
  note w1 = loader_skips_loaded_model_id[where st = demo_loaded_16 and lib = "demo_lib False"
      and precision = "''32-bit''" and cd = "Some ''/cache''"]
  note w2 = loader_skips_loaded_model_id[where st = stale_session and lib = "demo_lib False"
      and precision = "''32-bit''" and cd = None]
  note w3 = loader_skips_loaded_model_id[where st = stale_session
      and lib = failing_tokenizer_lib and precision = "''32-bit''" and cd = None
      and e = "LibraryError ''no tokenizer''"]
  note w4 = loader_skips_loaded_model_id[where st = initial_session and lib = "demo_lib False"
      and precision = "''16-bit''" and cd = None]
  note w5 = loader_skips_loaded_model_id[where st = demo_loaded_16 and lib = "demo_lib False"
      and precision = "''16-bit''" and cd = None]
  from w1 a have c1: "load_model_and_tokenizer (demo_lib False) ''32-bit'' (Some ''/cache'')
      demo_loaded_16 = (Inr (), demo_loaded_16)" by blast
  from w2 b have "load_model_and_tokenizer (demo_lib False) ''32-bit'' None stale_session =
     load_model_and_tokenizer (demo_lib False) ''32-bit'' None
       (stale_session\<lparr>model := None, tokenizer := None, model_id_loaded := None,
          lib_calls := lib_calls stale_session @
            GcCollect # (if cuda_is_available (demo_lib False) then [CudaEmptyCache] else [])\<rparr>)"
    by blast
  then have c2: "load_model_and_tokenizer (demo_lib False) ''32-bit'' None stale_session =
     load_model_and_tokenizer (demo_lib False) ''32-bit'' None
       (stale_session\<lparr>model := None, tokenizer := None, model_id_loaded := None,
          lib_calls := lib_calls stale_session @ [GcCollect]\<rparr>)"
    by simp
  from w2 b have "\<exists>cs. new_calls stale_session
           (snd (load_model_and_tokenizer (demo_lib False) ''32-bit'' None stale_session)) =
         GcCollect # (if cuda_is_available (demo_lib False) then [CudaEmptyCache] else []) @
         TokenizerFromPretrained HARDCODED_MODEL_ID None # cs"
    by blast
  then have c3: "\<exists>cs. new_calls stale_session
           (snd (load_model_and_tokenizer (demo_lib False) ''32-bit'' None stale_session)) =
         GcCollect # TokenizerFromPretrained HARDCODED_MODEL_ID None # cs"
    by simp
  from w3 b t have c4: "load_model_and_tokenizer failing_tokenizer_lib ''32-bit'' None
      stale_session =
     (Inl (LibraryError ''no tokenizer''),
      stale_session\<lparr>model := None, tokenizer := None,
         device := Some (fst (select_device failing_tokenizer_lib ''32-bit'')),
         model_id_loaded := None,
         lib_calls := lib_calls stale_session @
           GcCollect # (if cuda_is_available failing_tokenizer_lib then [CudaEmptyCache] else [])
           @ [TokenizerFromPretrained HARDCODED_MODEL_ID None]\<rparr>)"
    by blast
  from w4 i have c5: "\<exists>cs. new_calls initial_session
           (snd (load_model_and_tokenizer (demo_lib False) ''16-bit'' None initial_session)) =
         TokenizerFromPretrained HARDCODED_MODEL_ID None # cs"
    by blast
  from w5 r a have c6: "model_id_loaded demo_loaded_16 = Some HARDCODED_MODEL_ID" by blast
  from a c1 r b c2 c3 t c5 c6 i show ?thesis
    by (simp add: c4)
qed



text \<open>
  C5. The server tokenizes with \<^verbatim>\<open>truncation=True, max_length=4096\<close> and no other way. With
  a tokenizer that honours these arguments, every \<^verbatim>\<open>model.generate\<close> call gets at most 4096
  input tokens. On a loaded session, for a formatted prompt of any length, the truncated
  ids are handed to \<^verbatim>\<open>model.generate\<close> and the response is decided by \<^verbatim>\<open>generate\<close> and
  \<^verbatim>\<open>decode\<close> alone: no request is refused for its size.
\<close>

theorem oversized_prompt_is_truncated:
  assumes "truncation_contract lib"
  shows "(TokenizerCall s tr n
            \<in> set (new_calls st (snd (generate_response lib precision cd b u h gp pd rng st)))
          \<longrightarrow> tr \<and> n = 4096) \<and>
         (ModelGenerate ids am cfg
            \<in> set (new_calls st (snd (generate_response lib precision cd b u h gp pd rng st)))
          \<longrightarrow> length ids \<le> 4096) \<and>
         (tokenizer st = Some t \<and> model st = Some m \<and>
          apply_chat_template lib t (build_messages (effective_system_prompt b pd) h u) = Inr p \<and>
          tokenizer_call lib t p True 4096 = Inr enc \<and>
          make_generation_config lib t gp = Inr cfg' \<longrightarrow>
            length (input_ids enc) \<le> 4096 \<and>
            (\<exists>am'. ModelGenerate (input_ids enc) am' cfg'
                \<in> set (new_calls st
                     (snd (generate_response lib precision cd b u h gp pd rng st))) \<and>
              fst (generate_response lib precision cd b u h gp pd rng st) =
                (case generate lib m (input_ids enc) am' cfg' rng of
                   Inl e \<Rightarrow> Inl (HTTPException 500 (''Error generating response: '' @ exc_str e))
                 | Inr outputs \<Rightarrow>
                     (case decode lib t (drop (length (input_ids enc)) outputs) of
                        Inl e \<Rightarrow>
                          Inl (HTTPException 500 (''Error generating response: '' @ exc_str e))
                      | Inr txt \<Rightarrow> Inr (strip txt)))))"
proof -
  let ?gr = "generate_response lib precision cd b u h gp pd rng st"
  have a: "TokenizerCall s tr n \<in> set (new_calls st (snd ?gr)) \<longrightarrow> tr \<and> n = 4096"
    using generate_response_tokenizer_calls[of s tr n st lib precision cd b u h gp pd rng]
    by blast
  have b: "ModelGenerate ids am cfg \<in> set (new_calls st (snd ?gr)) \<longrightarrow> length ids \<le> 4096"
  proof
    assume g: "ModelGenerate ids am cfg \<in> set (new_calls st (snd ?gr))"
    obtain cs where cs: "lib_calls (snd ?gr) = lib_calls st @ cs"
      and k: "\<forall>ids am cfg. ModelGenerate ids am cfg \<in> set cs \<longrightarrow>
           (\<exists>t p enc. tokenizer_call lib t p True 4096 = Inr enc \<and> ids = input_ids enc
              \<and> make_generation_config lib t gp = Inr cfg)"
      using generate_response_calls[of lib precision cd b u h gp pd rng st] by blast
    from g cs have "ModelGenerate ids am cfg \<in> set cs" by simp
    with k obtain t p enc where "tokenizer_call lib t p True 4096 = Inr enc" "ids = input_ids enc"
      by blast
    with assms show "length ids \<le> 4096" by (auto simp add: truncation_contract_def)
  qed
  have c: "length (input_ids enc) \<le> 4096 \<and>
            (\<exists>am'. ModelGenerate (input_ids enc) am' cfg' \<in> set (new_calls st (snd ?gr)) \<and>
              fst ?gr =
                (case generate lib m (input_ids enc) am' cfg' rng of
                   Inl e \<Rightarrow> Inl (HTTPException 500 (''Error generating response: '' @ exc_str e))
                 | Inr outputs \<Rightarrow>
                     (case decode lib t (drop (length (input_ids enc)) outputs) of
                        Inl e \<Rightarrow>
                          Inl (HTTPException 500 (''Error generating response: '' @ exc_str e))
                      | Inr txt \<Rightarrow> Inr (strip txt))))"
    if h: "tokenizer st = Some t \<and> model st = Some m \<and>
          apply_chat_template lib t (build_messages (effective_system_prompt b pd) h u) = Inr p \<and>
          tokenizer_call lib t p True 4096 = Inr enc \<and>
          make_generation_config lib t gp = Inr cfg'"
  proof -
    from h assms have l: "length (input_ids enc) \<le> 4096"
      by (auto simp add: truncation_contract_def)
    from h have h1: "tokenizer st = Some t" and h2: "model st = Some m"
      and h3: "apply_chat_template lib t (build_messages (effective_system_prompt b pd) h u)
                 = Inr p"
      and h4: "tokenizer_call lib t p True 4096 = Inr enc"
      and h5: "make_generation_config lib t gp = Inr cfg'" by simp_all
    from generation_body_loaded[OF h1 h2 h3 h4 h5, of rng]
    obtain am' cs where
      c1: "lib_calls (snd (generation_body lib b u h gp pd rng st)) =
       lib_calls st @ [ApplyChatTemplate (build_messages (effective_system_prompt b pd) h u),
                       TokenizerCall p True 4096,
                       ModelGenerate (input_ids enc) am' cfg'] @ cs"
      and c2: "fst (generation_body lib b u h gp pd rng st) =
       (case generate lib m (input_ids enc) am' cfg' rng of
          Inl e \<Rightarrow> Inl e
        | Inr outputs \<Rightarrow>
            (case decode lib t (drop (length (input_ids enc)) outputs) of
               Inl e \<Rightarrow> Inl e
             | Inr text \<Rightarrow> Inr (strip text)))"
      by blast
    have gl: "snd ?gr = snd (generation_body lib b u h gp pd rng st) \<and>
       fst ?gr = (case fst (generation_body lib b u h gp pd rng st) of
          Inl e \<Rightarrow> Inl (HTTPException 500 (''Error generating response: '' @ exc_str e))
        | Inr answer \<Rightarrow> Inr answer)"
      using generate_response_loaded[of st lib precision cd b u h gp pd rng] h1 h2 by simp
    have m: "ModelGenerate (input_ids enc) am' cfg' \<in> set (new_calls st (snd ?gr))"
      using gl c1 by (simp add: new_calls_def)
    have f: "fst ?gr =
                (case generate lib m (input_ids enc) am' cfg' rng of
                   Inl e \<Rightarrow> Inl (HTTPException 500 (''Error generating response: '' @ exc_str e))
                 | Inr outputs \<Rightarrow>
                     (case decode lib t (drop (length (input_ids enc)) outputs) of
                        Inl e \<Rightarrow>
                          Inl (HTTPException 500 (''Error generating response: '' @ exc_str e))
                      | Inr txt \<Rightarrow> Inr (strip txt)))"
      using gl c2 by (simp split: sum.splits)
    from l m f show ?thesis by blast
  qed
  from a b c show ?thesis by blast
qed

theorem oversized_prompt_is_truncated_witness:
  "truncation_contract (demo_lib False) \<and>
   apply_chat_template (demo_lib False) ''ruslanmv/Medical-Llama3-v2''
       (build_messages (effective_system_prompt CHAT_SYSTEM_PROMPT None) [] long_prompt)
     = Inr (CHAT_SYSTEM_PROMPT @ long_prompt) \<and>
   4096 < length (CHAT_SYSTEM_PROMPT @ long_prompt) \<and>
   (\<exists>ids am cfg. ModelGenerate ids am cfg
       \<in> set (new_calls demo_loaded_16
            (snd (generate_response (demo_lib False) ''16-bit'' None CHAT_SYSTEM_PROMPT
                    long_prompt []
                    (make_gen_params (Some 8) (Some (Fin (7/10))) (Some (Fin (9/10)))) None 7
                    demo_loaded_16))) \<and>
      length ids = 4096) \<and>
   (\<exists>answer. fst (generate_response (demo_lib False) ''16-bit'' None CHAT_SYSTEM_PROMPT
                    long_prompt []
                    (make_gen_params (Some 8) (Some (Fin (7/10))) (Some (Fin (9/10)))) None 7
                    demo_loaded_16) = Inr answer)"
proof -
  let ?t = "''ruslanmv/Medical-Llama3-v2''"
  let ?gp = "make_gen_params (Some 8) (Some (Fin (7/10))) (Some (Fin (9/10)))"
  let ?p = "CHAT_SYSTEM_PROMPT @ long_prompt"
  let ?enc = "\<lparr>input_ids = take 4096 (map of_char ?p), attention_mask = None\<rparr>"
  let ?gr = "generate_response (demo_lib False) ''16-bit'' None CHAT_SYSTEM_PROMPT
                    long_prompt [] ?gp None 7 demo_loaded_16"
  have tc: "truncation_contract (demo_lib False)" by (rule demo_truncation_contract)
  have ap: "apply_chat_template (demo_lib False) ?t
       (build_messages (effective_system_prompt CHAT_SYSTEM_PROMPT None) [] long_prompt)
     = Inr ?p"
    by (simp add: demo_lib_fields build_messages_def effective_system_prompt_def)
  have ln: "4096 < length ?p" by (simp add: long_prompt_def)
  have tk: "tokenizer_call (demo_lib False) ?t ?p True 4096 = Inr ?enc"
    by (simp add: demo_lib_fields)
  have pos: "(0::real) < 7/10" by simp
  obtain cfg where cfg: "make_generation_config (demo_lib False) ?t ?gp = Inr cfg"
    using config_exists_when_sampling[OF pos, of "demo_lib False" ?t 8 "9/10"] by blast
  note w = oversized_prompt_is_truncated[OF tc, where st = demo_loaded_16
      and precision = "''16-bit''" and cd = None and b = CHAT_SYSTEM_PROMPT and u = long_prompt
      and h = "[]" and gp = ?gp and pd = None and rng = 7 and t = ?t
      and m = "\<lparr>cache_dir = None, trust_remote_code = True,
          quantization_config = None, torch_dtype = Some float16\<rparr>"
      and p = ?p and enc = ?enc and cfg' = cfg]
  from w demo_loaded_16_fields ap tk cfg
  obtain am' where g: "ModelGenerate (input_ids ?enc) am' cfg \<in> set (new_calls demo_loaded_16
            (snd ?gr))"
    and f: "fst ?gr =
        (case generate (demo_lib False) \<lparr>cache_dir = None, trust_remote_code = True,
              quantization_config = None, torch_dtype = Some float16\<rparr>
              (input_ids ?enc) am' cfg 7 of
           Inl e \<Rightarrow> Inl (HTTPException 500 (''Error generating response: '' @ exc_str e))
         | Inr outputs \<Rightarrow>
             (case decode (demo_lib False) ?t (drop (length (input_ids ?enc)) outputs) of
                Inl e \<Rightarrow> Inl (HTTPException 500 (''Error generating response: '' @ exc_str e))
              | Inr txt \<Rightarrow> Inr (strip txt)))"
    by blast
  have l: "length (input_ids ?enc) = 4096" using ln by simp
  have e1: "\<exists>ids am cfg. ModelGenerate ids am cfg \<in> set (new_calls demo_loaded_16 (snd ?gr)) \<and>
      length ids = 4096"
    using g l by blast
  have e2: "\<exists>answer. fst ?gr = Inr answer"
    using f by (simp add: demo_lib_fields)
  from tc ap ln e1 e2 show ?thesis by blast
qed

text \<open>
  C1. When the effective temperature is a number at most 0 and the effective top_p a
  number at least 1, every \<^verbatim>\<open>model.generate\<close> call of the request has \<^verbatim>\<open>do_sample=False\<close> and
  neither \<^verbatim>\<open>temperature\<close> nor \<^verbatim>\<open>top_p\<close> in its configuration. With a library whose greedy
  decoding does not read the random number generator, the response and the session after
  it are then the same for every state of the generator, and a second call with the same
  input, made on the session the first call left, returns the same answer.
\<close>

theorem greedy_decoding_is_deterministic:
  assumes "as_number (dict_get gp ''temperature'' (PFloat (Fin (7/10)))) = Some temp"
    and "float_le temp (Fin 0)"
    and "as_number (dict_get gp ''top_p'' (PFloat (Fin (9/10)))) = Some tp"
    and "float_le (Fin 1) tp"
  shows "(ModelGenerate ids am cfg
            \<in> set (new_calls st (snd (generate_response lib precision cd b u h gp pd rng st)))
          \<longrightarrow> cfg ''do_sample'' = Some (PBool False) \<and>
              cfg ''temperature'' = None \<and> cfg ''top_p'' = None) \<and>
         (greedy_is_deterministic lib \<longrightarrow>
            generate_response lib precision cd b u h gp pd rng st =
              generate_response lib precision cd b u h gp pd rng' st \<and>
            (fst (generate_response lib precision cd b u h gp pd rng st) = Inr answer \<longrightarrow>
             fst (generate_response lib precision cd b u h gp pd rng'
                    (snd (generate_response lib precision cd b u h gp pd rng st)))
               = Inr answer))"
proof -
  let ?gr = "generate_response lib precision cd b u h gp pd rng st"
  note gc = greedy_config[OF assms]
  have a: "ModelGenerate ids am cfg \<in> set (new_calls st (snd ?gr)) \<longrightarrow>
      cfg ''do_sample'' = Some (PBool False) \<and> cfg ''temperature'' = None \<and> cfg ''top_p'' = None"
  proof
    assume g: "ModelGenerate ids am cfg \<in> set (new_calls st (snd ?gr))"
    obtain cs where cs: "lib_calls (snd ?gr) = lib_calls st @ cs"
      and k: "\<forall>ids am cfg. ModelGenerate ids am cfg \<in> set cs \<longrightarrow>
           (\<exists>t p enc. tokenizer_call lib t p True 4096 = Inr enc \<and> ids = input_ids enc
              \<and> make_generation_config lib t gp = Inr cfg)"
      using generate_response_calls[of lib precision cd b u h gp pd rng st] by blast
    from g cs have "ModelGenerate ids am cfg \<in> set cs" by simp
    with k obtain t where "make_generation_config lib t gp = Inr cfg" by blast
    with gc[of lib t] show "cfg ''do_sample'' = Some (PBool False) \<and>
        cfg ''temperature'' = None \<and> cfg ''top_p'' = None" by auto
  qed
  have b: "?gr = generate_response lib precision cd b u h gp pd rng' st \<and>
            (fst ?gr = Inr answer \<longrightarrow>
             fst (generate_response lib precision cd b u h gp pd rng' (snd ?gr)) = Inr answer)"
    if d: "greedy_is_deterministic lib"
  proof -
    have g: "generate lib m ids am cfg rng = generate lib m ids am cfg rng'"
      if "make_generation_config lib t gp = Inr cfg" for t m ids am cfg
    proof -
      from that gc[of lib t] have "cfg ''do_sample'' = Some (PBool False)" by auto
      with d show ?thesis unfolding greedy_is_deterministic_def by blast
    qed
    have body: "generation_body lib b u h gp pd rng s = generation_body lib b u h gp pd rng' s"
      for s
      by (rule generation_body_rng) (rule g)
    have e1: "?gr = generate_response lib precision cd b u h gp pd rng' st"
      by (auto simp add: generate_response_def body split: prod.splits sum.splits)
    have e2: "fst (generate_response lib precision cd b u h gp pd rng' (snd ?gr)) = Inr answer"
      if ok: "fst ?gr = Inr answer"
    proof -
      obtain r stl where ll: "lazy_load lib precision cd st = (r, stl)" by fastforce
      obtain r2 st1 where gb: "generation_body lib b u h gp pd rng stl = (r2, st1)" by fastforce
      from ok ll gb have r2: "r2 = Inr answer" and s1: "snd ?gr = st1"
        by (auto simp add: generate_response_def split: sum.splits)
      from gb r2 have f: "fst (generation_body lib b u h gp pd rng stl) = Inr answer" by simp
      from generation_body_success[OF f] have l: "model stl \<noteq> None" "tokenizer stl \<noteq> None"
        by simp_all
      from generation_body_fields[of lib b u h gp pd rng stl] gb
      have same: "model st1 = model stl" "tokenizer st1 = tokenizer stl" by simp_all
      with l have l1: "model st1 \<noteq> None" "tokenizer st1 \<noteq> None" by simp_all
      have "fst (generation_body lib b u h gp pd rng' st1) =
          fst (generation_body lib b u h gp pd rng' stl)"
        using generation_body_same_objects[OF same] by simp
      also have "\<dots> = fst (generation_body lib b u h gp pd rng stl)"
        by (simp add: body)
      finally have "fst (generation_body lib b u h gp pd rng' st1) = Inr answer"
        using f by simp
      with generate_response_loaded[OF l1, of lib precision cd b u h gp pd rng'] s1
      show ?thesis by simp
    qed
    from e1 e2 show ?thesis by blast
  qed
  from a b show ?thesis by blast
qed

theorem greedy_decoding_is_deterministic_witness:
  "as_number (dict_get (make_gen_params (Some 8) (Some (Fin 0)) (Some (Fin 1))) ''temperature''
      (PFloat (Fin (7/10)))) = Some (Fin 0) \<and>
   float_le (Fin 0) (Fin 0) \<and>
   as_number (dict_get (make_gen_params (Some 8) (Some (Fin 0)) (Some (Fin 1))) ''top_p''
      (PFloat (Fin (9/10)))) = Some (Fin 1) \<and>
   float_le (Fin 1) (Fin 1) \<and>
   greedy_is_deterministic (demo_lib False) \<and>
   generate (demo_lib False) \<lparr>cache_dir = None, trust_remote_code = True,
       quantization_config = None, torch_dtype = None\<rparr> [1] [1]
       [''do_sample'' \<mapsto> PBool True] 1 \<noteq>
     generate (demo_lib False) \<lparr>cache_dir = None, trust_remote_code = True,
       quantization_config = None, torch_dtype = None\<rparr> [1] [1]
       [''do_sample'' \<mapsto> PBool True] 2 \<and>
   (\<exists>ids am cfg. ModelGenerate ids am cfg
       \<in> set (new_calls demo_loaded_16
            (snd (generate_response (demo_lib False) ''16-bit'' None CHAT_SYSTEM_PROMPT
                    ''and now?'' [] (make_gen_params (Some 8) (Some (Fin 0)) (Some (Fin 1)))
                    None 1 demo_loaded_16))) \<and>
      cfg ''do_sample'' = Some (PBool False) \<and> cfg ''temperature'' = None \<and>
      cfg ''top_p'' = None) \<and>
   generate_response (demo_lib False) ''16-bit'' None CHAT_SYSTEM_PROMPT ''and now?'' []
       (make_gen_params (Some 8) (Some (Fin 0)) (Some (Fin 1))) None 1 demo_loaded_16 =
     generate_response (demo_lib False) ''16-bit'' None CHAT_SYSTEM_PROMPT ''and now?'' []
       (make_gen_params (Some 8) (Some (Fin 0)) (Some (Fin 1))) None 2 demo_loaded_16 \<and>
   (\<exists>answer.
      fst (generate_response (demo_lib False) ''16-bit'' None CHAT_SYSTEM_PROMPT ''and now?''
             [] (make_gen_params (Some 8) (Some (Fin 0)) (Some (Fin 1))) None 1
             demo_loaded_16) = Inr answer \<and>
      fst (generate_response (demo_lib False) ''16-bit'' None CHAT_SYSTEM_PROMPT ''and now?''
             [] (make_gen_params (Some 8) (Some (Fin 0)) (Some (Fin 1))) None 2
             (snd (generate_response (demo_lib False) ''16-bit'' None CHAT_SYSTEM_PROMPT
                     ''and now?'' [] (make_gen_params (Some 8) (Some (Fin 0)) (Some (Fin 1)))
                     None 1 demo_loaded_16))) = Inr answer)"
proof -
  let ?gp = "make_gen_params (Some 8) (Some (Fin 0)) (Some (Fin 1))"
  let ?t = "''ruslanmv/Medical-Llama3-v2''"
  let ?gr = "\<lambda>r s. generate_response (demo_lib False) ''16-bit'' None CHAT_SYSTEM_PROMPT
       ''and now?'' [] ?gp None r s"
  have h1: "as_number (dict_get ?gp ''temperature'' (PFloat (Fin (7/10)))) = Some (Fin 0)"
    by (simp add: gen_params_get)
  have h2: "float_le (Fin 0) (Fin 0)" by simp
  have h3: "as_number (dict_get ?gp ''top_p'' (PFloat (Fin (9/10)))) = Some (Fin 1)"
    by (simp add: gen_params_get)
  have h4: "float_le (Fin 1) (Fin 1)" by simp
  have d: "greedy_is_deterministic (demo_lib False)" by (rule demo_greedy_is_deterministic)
  have s: "generate (demo_lib False) \<lparr>cache_dir = None, trust_remote_code = True,
       quantization_config = None, torch_dtype = None\<rparr> [1] [1]
       [''do_sample'' \<mapsto> PBool True] 1 \<noteq>
     generate (demo_lib False) \<lparr>cache_dir = None, trust_remote_code = True,
       quantization_config = None, torch_dtype = None\<rparr> [1] [1]
       [''do_sample'' \<mapsto> PBool True] 2"
    by (simp add: demo_lib_fields)
  obtain cfg where cfg: "make_generation_config (demo_lib False) ?t ?gp = Inr cfg"
    using greedy_config[OF h1 h2 h3 h4, of "demo_lib False" ?t] by blast
  from demo_generates_and_answers[OF cfg, of "''16-bit''" None CHAT_SYSTEM_PROMPT "''and now?''"
      "[]" None 1]
  obtain ids am answer where g: "ModelGenerate ids am cfg
            \<in> set (new_calls demo_loaded_16 (snd (?gr 1 demo_loaded_16)))"
    and an: "fst (?gr 1 demo_loaded_16) = Inr answer"
    by blast
  note w = greedy_decoding_is_deterministic[OF h1 h2 h3 h4, where lib = "demo_lib False"
      and precision = "''16-bit''" and cd = None and b = CHAT_SYSTEM_PROMPT
      and u = "''and now?''" and h = "[]" and pd = None and rng = 1 and rng' = 2
      and st = demo_loaded_16 and ids = ids and am = am and cfg = cfg and answer = answer]
  from w g have c1: "cfg ''do_sample'' = Some (PBool False) \<and> cfg ''temperature'' = None \<and>
      cfg ''top_p'' = None" by blast
  from w d have c2: "?gr 1 demo_loaded_16 = ?gr 2 demo_loaded_16" by blast
  from w d an have c3: "fst (?gr 2 (snd (?gr 1 demo_loaded_16))) = Inr answer" by blast
  have e1: "\<exists>ids am cfg. ModelGenerate ids am cfg
       \<in> set (new_calls demo_loaded_16 (snd (?gr 1 demo_loaded_16))) \<and>
      cfg ''do_sample'' = Some (PBool False) \<and> cfg ''temperature'' = None \<and>
      cfg ''top_p'' = None"
    using g c1 by blast
  have e2: "\<exists>answer. fst (?gr 1 demo_loaded_16) = Inr answer \<and>
      fst (?gr 2 (snd (?gr 1 demo_loaded_16))) = Inr answer"
    using an c3 by blast
  from h1 h2 h3 h4 d s e1 c2 e2 show ?thesis by blast
qed

text \<open>
  C3. A request carries a user profile in which only \<^verbatim>\<open>age\<close> is set. When the age is
  not 0 the effective system prompt is the block \<^verbatim>\<open>User Profile:\<close>, the one bullet line
  \<^verbatim>\<open>- Age: ...\<close>, an empty line and the base prompt, as the claim says. When the age is 0 the
  test \<^verbatim>\<open>if profile_data.get('age')\<close> of line 230 is false, no bullet line is made, and the
  effective system prompt is the base prompt alone: the chat template receives a system
  message without any profile line. The comment of line 229 announces the lines of the
  non-empty and non-null fields, and 0 is neither empty nor null.
\<close>

theorem age_zero_has_no_profile_line:
  "profile_parts (only_age a) = (if a = 0 then [] else [''- Age: '' @ str_int a]) \<and>
   effective_system_prompt b (Some (only_age a)) =
     (if a = 0 then b
      else ''User Profile:\<newline>- Age: '' @ str_int a @ ''\<newline>\<newline>'' @ b) \<and>
   (tokenizer st = Some t \<longrightarrow>
    (\<exists>cs. new_calls st (snd (generation_body lib b u h gp (Some (only_age 0)) rng st)) =
       ApplyChatTemplate ([\<lparr>role = ''system'', content = b\<rparr>] @ h @
                          [\<lparr>role = ''user'', content = u\<rparr>]) # cs))"
proof -
  have c: "tokenizer st = Some t \<longrightarrow>
    (\<exists>cs. new_calls st (snd (generation_body lib b u h gp (Some (only_age 0)) rng st)) =
       ApplyChatTemplate ([\<lparr>role = ''system'', content = b\<rparr>] @ h @
                          [\<lparr>role = ''user'', content = u\<rparr>]) # cs)"
  proof
    assume t: "tokenizer st = Some t"
    from generation_body_first_call[OF t, of lib b u h gp "Some (only_age 0)" rng]
    obtain cs where "lib_calls (snd (generation_body lib b u h gp (Some (only_age 0)) rng st)) =
       lib_calls st @ ApplyChatTemplate
         (build_messages (effective_system_prompt b (Some (only_age 0))) h u) # cs"
      by blast
    then have "new_calls st (snd (generation_body lib b u h gp (Some (only_age 0)) rng st)) =
       ApplyChatTemplate ([\<lparr>role = ''system'', content = b\<rparr>] @ h @
                          [\<lparr>role = ''user'', content = u\<rparr>]) # cs"
      by (simp add: new_calls_def effective_system_prompt_only_age build_messages_def)
    then show "\<exists>cs. new_calls st
        (snd (generation_body lib b u h gp (Some (only_age 0)) rng st)) =
       ApplyChatTemplate ([\<lparr>role = ''system'', content = b\<rparr>] @ h @
                          [\<lparr>role = ''user'', content = u\<rparr>]) # cs"
      by blast
  qed
  from profile_parts_only_age[of a] effective_system_prompt_only_age[of b a] c
  show ?thesis by blast
qed

theorem age_zero_has_no_profile_line_witness:
  "profile_parts (only_age 0) = [] \<and>
   effective_system_prompt CHAT_SYSTEM_PROMPT (Some (only_age 0)) = CHAT_SYSTEM_PROMPT \<and>
   profile_parts (only_age 34) = [''- Age: 34''] \<and>
   effective_system_prompt CHAT_SYSTEM_PROMPT (Some (only_age 34)) =
     ''User Profile:\<newline>- Age: 34\<newline>\<newline>'' @ CHAT_SYSTEM_PROMPT \<and>
   tokenizer demo_loaded_16 = Some ''ruslanmv/Medical-Llama3-v2'' \<and>
   (\<exists>cs. new_calls demo_loaded_16
            (snd (chat (demo_lib False) ''16-bit'' None 1 age_zero_body demo_loaded_16)) =
      ApplyChatTemplate [\<lparr>role = ''system'', content = CHAT_SYSTEM_PROMPT\<rparr>,
                         \<lparr>role = ''user'', content = ''and now?''\<rparr>] # cs)"
proof -
  let ?gp = "make_gen_params (Some 512) (Some (Fin (7/10))) (Some (Fin (9/10)))"
  note z = age_zero_has_no_profile_line[where a = 0 and b = CHAT_SYSTEM_PROMPT
      and st = demo_loaded_16 and t = "''ruslanmv/Medical-Llama3-v2''"
      and lib = "demo_lib False" and u = "''and now?''" and h = "[]" and gp = ?gp
      and rng = 1]
  note n = age_zero_has_no_profile_line[where a = 34 and b = CHAT_SYSTEM_PROMPT
      and st = demo_loaded_16 and t = "''ruslanmv/Medical-Llama3-v2''"
      and lib = "demo_lib False" and u = "''and now?''" and h = "[]" and gp = ?gp
      and rng = 1]
  note t = demo_loaded_16_fields(1)
  have a1: "profile_parts (only_age 0) = []" using z by simp
  have a2: "effective_system_prompt CHAT_SYSTEM_PROMPT (Some (only_age 0)) = CHAT_SYSTEM_PROMPT"
    using z by simp
  have a3: "profile_parts (only_age 34) = [''- Age: 34'']"
    using n by (simp add: str_int_34)
  have a4: "effective_system_prompt CHAT_SYSTEM_PROMPT (Some (only_age 34)) =
     ''User Profile:\<newline>- Age: 34\<newline>\<newline>'' @ CHAT_SYSTEM_PROMPT"
    using n by (simp add: str_int_34)
  from z t have "\<exists>cs. new_calls demo_loaded_16
       (snd (generation_body (demo_lib False) CHAT_SYSTEM_PROMPT ''and now?'' [] ?gp
               (Some (only_age 0)) 1 demo_loaded_16)) =
     ApplyChatTemplate ([\<lparr>role = ''system'', content = CHAT_SYSTEM_PROMPT\<rparr>] @ [] @
                        [\<lparr>role = ''user'', content = ''and now?''\<rparr>]) # cs"
    by blast
  then have a5: "\<exists>cs. new_calls demo_loaded_16
            (snd (chat (demo_lib False) ''16-bit'' None 1 age_zero_body demo_loaded_16)) =
      ApplyChatTemplate [\<lparr>role = ''system'', content = CHAT_SYSTEM_PROMPT\<rparr>,
                         \<lparr>role = ''user'', content = ''and now?''\<rparr>] # cs"
    by (simp add: age_zero_chat_state)
  from a1 a2 a3 a4 t a5 show ?thesis by blast
qed

end
